theory Spec2Isabelle
  imports Complex_Main
begin

section \<open>Tensors and the tensor operations the heads call\<close>

text \<open>
  The module \<^verbatim>\<open>ola_vlm/model/aux_heads/da_v2_head.py\<close> is a composition of tensor
  operators. A tensor is its shape, its elements (read at an index list, one index per
  axis) and the flag that says whether it is attached to a gradient graph. Elements are
  real numbers: the rounding of the machine arithmetic is not part of this development.
  An operator that raises in the tensor runtime returns \<open>Inl\<close> of the exception.
\<close>

datatype error =
  RuntimeError | ValueError | IndexError | AttributeError | NotImplementedError
  | TypeError | KeyError

record tensor =
  shape :: "nat list"
  val :: "nat list \<Rightarrow> real"
  requires_grad :: bool

text \<open>A learned parameter: its elements and whether the optimiser tracks it.\<close>

record param =
  data :: "nat list \<Rightarrow> real"
  p_requires_grad :: bool

text \<open>
  The values a module is constructed over, by the name the module gives each parameter
  (as in a checkpoint), in place of the random initialisation.
\<close>

type_synonym state_dict = "string \<Rightarrow> param"

definition numel :: "nat list \<Rightarrow> nat" where
  "numel s = prod_list s"

text \<open>Row-major position of an index and back (used by \<^verbatim>\<open>reshape\<close>).\<close>

fun flat_index :: "nat list \<Rightarrow> nat list \<Rightarrow> nat" where
  "flat_index (d # ds) (i # is) = i * prod_list ds + flat_index ds is"
| "flat_index _ _ = 0"

fun unflat_index :: "nat list \<Rightarrow> nat \<Rightarrow> nat list" where
  "unflat_index [] k = []"
| "unflat_index (d # ds) k = (k div prod_list ds) # unflat_index ds (k mod prod_list ds)"

subsection \<open>Elementwise and view operations\<close>

text \<open>\<^verbatim>\<open>F.relu\<close> and \<^verbatim>\<open>nn.ReLU\<close>: negatives are clamped to zero.\<close>

definition relu :: "bool \<Rightarrow> tensor \<Rightarrow> tensor" where
  "relu g x = \<lparr>shape = shape x, val = (\<lambda>i. max 0 (val x i)),
               requires_grad = (g \<and> requires_grad x)\<rparr>"

text \<open>\<^verbatim>\<open>x.permute(0, 2, 1)\<close>: only a 3-D tensor has axes 0, 1, 2 and no others.\<close>

definition permute_021 :: "bool \<Rightarrow> tensor \<Rightarrow> error + tensor" where
  "permute_021 g x =
     (case shape x of
        [a, b, c] \<Rightarrow>
          Inr \<lparr>shape = [a, c, b],
               val = (\<lambda>i. case i of [p, q, r] \<Rightarrow> val x [p, r, q] | _ \<Rightarrow> 0),
               requires_grad = (g \<and> requires_grad x)\<rparr>
      | _ \<Rightarrow> Inl RuntimeError)"

text \<open>\<^verbatim>\<open>x.reshape(s)\<close>: the element count must be kept; elements keep their row-major order.\<close>

definition reshape :: "bool \<Rightarrow> tensor \<Rightarrow> nat list \<Rightarrow> error + tensor" where
  "reshape g x s =
     (if numel (shape x) \<noteq> numel s then Inl RuntimeError
      else Inr \<lparr>shape = s,
                val = (\<lambda>i. val x (unflat_index (shape x) (flat_index s i))),
                requires_grad = (g \<and> requires_grad x)\<rparr>)"

text \<open>\<^verbatim>\<open>x.unsqueeze(1)\<close> and \<^verbatim>\<open>x[:, None]\<close>: a new axis of length 1 at position 1.\<close>

definition unsqueeze1 :: "bool \<Rightarrow> tensor \<Rightarrow> error + tensor" where
  "unsqueeze1 g x =
     (if shape x = [] then Inl IndexError
      else Inr \<lparr>shape = take 1 (shape x) @ [1] @ drop 1 (shape x),
                val = (\<lambda>i. val x (take 1 i @ drop 2 i)),
                requires_grad = (g \<and> requires_grad x)\<rparr>)"

text \<open>\<^verbatim>\<open>x.squeeze(1)\<close>: axis 1 is dropped when its length is 1, and kept otherwise.\<close>

definition squeeze1 :: "bool \<Rightarrow> tensor \<Rightarrow> error + tensor" where
  "squeeze1 g x =
     (if length (shape x) < 2 then Inl IndexError
      else if shape x ! 1 = 1 then
        Inr \<lparr>shape = take 1 (shape x) @ drop 2 (shape x),
             val = (\<lambda>i. val x (take 1 i @ [0] @ drop 1 i)),
             requires_grad = (g \<and> requires_grad x)\<rparr>
      else Inr (x\<lparr>requires_grad := g \<and> requires_grad x\<rparr>))"

text \<open>\<^verbatim>\<open>x[0, 0]\<close>: the first entry along the first two axes.\<close>

definition index_00 :: "bool \<Rightarrow> tensor \<Rightarrow> error + tensor" where
  "index_00 g x =
     (case shape x of
        a # b # s \<Rightarrow>
          if a = 0 \<or> b = 0 then Inl IndexError
          else Inr \<lparr>shape = s, val = (\<lambda>i. val x (0 # 0 # i)),
                    requires_grad = (g \<and> requires_grad x)\<rparr>
      | _ \<Rightarrow> Inl IndexError)"

text \<open>
  Broadcasting, on shapes read from the last axis backwards: two lengths agree when they
  are equal or one of them is 1.
\<close>

fun broadcast_rev :: "nat list \<Rightarrow> nat list \<Rightarrow> nat list option" where
  "broadcast_rev [] ys = Some ys"
| "broadcast_rev xs [] = Some xs"
| "broadcast_rev (x # xs) (y # ys) =
     (if x = y \<or> y = 1 then map_option ((#) x) (broadcast_rev xs ys)
      else if x = 1 then map_option ((#) y) (broadcast_rev xs ys)
      else None)"

definition broadcast_shapes :: "nat list \<Rightarrow> nat list \<Rightarrow> nat list option" where
  "broadcast_shapes s t = map_option rev (broadcast_rev (rev s) (rev t))"

text \<open>The index an operand of shape \<open>s\<close> is read at, for an index of the broadcast result.\<close>

definition broadcast_index :: "nat list \<Rightarrow> nat list \<Rightarrow> nat list" where
  "broadcast_index s i =
     map (\<lambda>(d, k). if d = 1 then 0 else k) (zip s (drop (length i - length s) i))"

text \<open>\<^verbatim>\<open>torch.add\<close>, which \<^verbatim>\<open>FloatFunctional.add\<close> calls.\<close>

definition add :: "bool \<Rightarrow> tensor \<Rightarrow> tensor \<Rightarrow> error + tensor" where
  "add g x y =
     (case broadcast_shapes (shape x) (shape y) of
        None \<Rightarrow> Inl RuntimeError
      | Some s \<Rightarrow>
          Inr \<lparr>shape = s,
               val = (\<lambda>i. val x (broadcast_index (shape x) i)
                           + val y (broadcast_index (shape y) i)),
               requires_grad = (g \<and> (requires_grad x \<or> requires_grad y))\<rparr>)"

text \<open>\<^verbatim>\<open>t.expand_as(x)\<close>: every axis of \<open>t\<close> has the target's length or length 1.\<close>

definition expand_as :: "bool \<Rightarrow> tensor \<Rightarrow> tensor \<Rightarrow> error + tensor" where
  "expand_as g t x =
     (if length (shape x) < length (shape t)
         \<or> broadcast_shapes (shape t) (shape x) \<noteq> Some (shape x)
      then Inl RuntimeError
      else Inr \<lparr>shape = shape x,
                val = (\<lambda>i. val t (broadcast_index (shape t) i)),
                requires_grad = (g \<and> requires_grad t)\<rparr>)"

text \<open>\<^verbatim>\<open>torch.cat((x, y), -1)\<close>: all axes but the last agree.\<close>

definition cat_last :: "bool \<Rightarrow> tensor \<Rightarrow> tensor \<Rightarrow> error + tensor" where
  "cat_last g x y =
     (if shape x = [] \<or> shape y = [] then Inl RuntimeError
      else if butlast (shape x) \<noteq> butlast (shape y) then Inl RuntimeError
      else Inr \<lparr>shape = butlast (shape x) @ [last (shape x) + last (shape y)],
                val = (\<lambda>i. if last i < last (shape x) then val x i
                           else val y (butlast i @ [last i - last (shape x)])),
                requires_grad = (g \<and> (requires_grad x \<or> requires_grad y))\<rparr>)"

subsection \<open>Learned layers\<close>

text \<open>
  \<^verbatim>\<open>nn.Linear\<close>: the last axis must have \<open>l_in\<close> (\<^verbatim>\<open>in_features\<close>) entries; the weight is indexed
  \<open>[out, in]\<close>.
\<close>

record linear_layer =
  l_in :: nat
  l_out :: nat
  lin_weight :: param
  lin_bias :: param

definition mk_Linear :: "state_dict \<Rightarrow> string \<Rightarrow> nat \<Rightarrow> nat \<Rightarrow> linear_layer" where
  "mk_Linear sd name n_in n_out =
     \<lparr>l_in = n_in, l_out = n_out,
      lin_weight = sd (name @ ''.weight''), lin_bias = sd (name @ ''.bias'')\<rparr>"

definition Linear_forward :: "bool \<Rightarrow> linear_layer \<Rightarrow> tensor \<Rightarrow> error + tensor" where
  "Linear_forward g l x =
     (if shape x = [] \<or> last (shape x) \<noteq> l_in l then Inl RuntimeError
      else Inr \<lparr>shape = butlast (shape x) @ [l_out l],
                val = (\<lambda>i. data (lin_bias l) [last i]
                           + (\<Sum>k<l_in l.
                                data (lin_weight l) [last i, k] * val x (butlast i @ [k]))),
                requires_grad = (g \<and> (requires_grad x \<or> p_requires_grad (lin_weight l)
                                        \<or> p_requires_grad (lin_bias l)))\<rparr>)"

text \<open>
  \<^verbatim>\<open>nn.Conv2d\<close> with a square kernel and zero padding. The input is \<open>(N, C, H, W)\<close>; the
  weight is indexed \<open>[out, in / groups, kh, kw]\<close>. The output's height is
  \<open>(H + 2 * padding - kernel) div stride + 1\<close>; a kernel larger than the padded input
  is refused.
\<close>

record conv2d_layer =
  c_in :: nat
  c_out :: nat
  kernel_size :: nat
  stride :: nat
  padding :: nat
  groups :: nat
  c_weight :: param
  c_bias :: "param option"

definition mk_Conv2d ::
  "state_dict \<Rightarrow> string \<Rightarrow> nat \<Rightarrow> nat \<Rightarrow> nat \<Rightarrow> nat \<Rightarrow> nat \<Rightarrow> bool \<Rightarrow> nat \<Rightarrow> conv2d_layer"
where
  "mk_Conv2d sd name n_in n_out k s p b grp =
     \<lparr>c_in = n_in, c_out = n_out, kernel_size = k, stride = s, padding = p, groups = grp,
      c_weight = sd (name @ ''.weight''),
      c_bias = (if b then Some (sd (name @ ''.bias'')) else None)\<rparr>"

definition conv_out :: "nat \<Rightarrow> nat \<Rightarrow> nat \<Rightarrow> nat \<Rightarrow> nat" where
  "conv_out h k s p = (h + 2 * p - k) div s + 1"

text \<open>The padded input, read at a padded position.\<close>

definition padded :: "tensor \<Rightarrow> nat \<Rightarrow> nat \<Rightarrow> nat \<Rightarrow> nat \<Rightarrow> nat \<Rightarrow> nat \<Rightarrow> nat \<Rightarrow> real" where
  "padded x p h w n c i j =
     (if p \<le> i \<and> i < p + h \<and> p \<le> j \<and> j < p + w then val x [n, c, i - p, j - p] else 0)"

definition bias_at :: "param option \<Rightarrow> nat \<Rightarrow> real" where
  "bias_at b c = (case b of None \<Rightarrow> 0 | Some q \<Rightarrow> data q [c])"

definition bias_grad :: "param option \<Rightarrow> bool" where
  "bias_grad b = (case b of None \<Rightarrow> False | Some q \<Rightarrow> p_requires_grad q)"

definition Conv2d_forward :: "bool \<Rightarrow> conv2d_layer \<Rightarrow> tensor \<Rightarrow> error + tensor" where
  "Conv2d_forward g c x =
     (case shape x of
        [n, ci, h, w] \<Rightarrow>
          if ci \<noteq> c_in c \<or> stride c = 0 \<or> groups c = 0 then Inl RuntimeError
          else if h + 2 * padding c < kernel_size c \<or> w + 2 * padding c < kernel_size c
          then Inl RuntimeError
          else
            Inr \<lparr>shape = [n, c_out c, conv_out h (kernel_size c) (stride c) (padding c),
                           conv_out w (kernel_size c) (stride c) (padding c)],
                 val = (\<lambda>idx. case idx of
                     [b, co, i, j] \<Rightarrow>
                       bias_at (c_bias c) co
                       + (\<Sum>k<c_in c div groups c. \<Sum>ki<kernel_size c. \<Sum>kj<kernel_size c.
                            data (c_weight c) [co, k, ki, kj]
                            * padded x (padding c) h w b
                                (co div (c_out c div groups c) * (c_in c div groups c) + k)
                                (i * stride c + ki) (j * stride c + kj))
                   | _ \<Rightarrow> 0),
                 requires_grad = (g \<and> (requires_grad x \<or> p_requires_grad (c_weight c)
                                         \<or> bias_grad (c_bias c)))\<rparr>
      | _ \<Rightarrow> Inl RuntimeError)"

text \<open>
  \<^verbatim>\<open>nn.ConvTranspose2d\<close> (groups 1, with bias): the weight is indexed \<open>[in, out, kh, kw]\<close>,
  and the output's height is \<open>(H - 1) * stride - 2 * padding + kernel\<close>.
\<close>

record convT2d_layer =
  t_in :: nat
  t_out :: nat
  t_kernel_size :: nat
  t_stride :: nat
  t_padding :: nat
  t_weight :: param
  t_bias :: param

definition mk_ConvTranspose2d ::
  "state_dict \<Rightarrow> string \<Rightarrow> nat \<Rightarrow> nat \<Rightarrow> nat \<Rightarrow> nat \<Rightarrow> nat \<Rightarrow> convT2d_layer"
where
  "mk_ConvTranspose2d sd name n_in n_out k s p =
     \<lparr>t_in = n_in, t_out = n_out, t_kernel_size = k, t_stride = s, t_padding = p,
      t_weight = sd (name @ ''.weight''), t_bias = sd (name @ ''.bias'')\<rparr>"

definition convT_out :: "nat \<Rightarrow> nat \<Rightarrow> nat \<Rightarrow> nat \<Rightarrow> nat" where
  "convT_out h k s p = (h - 1) * s + k - 2 * p"

definition ConvTranspose2d_forward :: "bool \<Rightarrow> convT2d_layer \<Rightarrow> tensor \<Rightarrow> error + tensor" where
  "ConvTranspose2d_forward g c x =
     (case shape x of
        [n, ci, h, w] \<Rightarrow>
          if ci \<noteq> t_in c \<or> t_stride c = 0 \<or> h = 0 \<or> w = 0 then Inl RuntimeError
          else if (h - 1) * t_stride c + t_kernel_size c \<le> 2 * t_padding c
                  \<or> (w - 1) * t_stride c + t_kernel_size c \<le> 2 * t_padding c
          then Inl RuntimeError
          else
            Inr \<lparr>shape = [n, t_out c, convT_out h (t_kernel_size c) (t_stride c) (t_padding c),
                           convT_out w (t_kernel_size c) (t_stride c) (t_padding c)],
                 val = (\<lambda>idx. case idx of
                     [b, co, i, j] \<Rightarrow>
                       data (t_bias c) [co]
                       + (\<Sum>k<t_in c. \<Sum>y<h. \<Sum>z<w. \<Sum>ki<t_kernel_size c. \<Sum>kj<t_kernel_size c.
                            if i + t_padding c = y * t_stride c + ki
                               \<and> j + t_padding c = z * t_stride c + kj
                            then data (t_weight c) [k, co, ki, kj] * val x [b, k, y, z]
                            else 0)
                   | _ \<Rightarrow> 0),
                 requires_grad = (g \<and> (requires_grad x \<or> p_requires_grad (t_weight c)
                                         \<or> p_requires_grad (t_bias c)))\<rparr>
      | _ \<Rightarrow> Inl RuntimeError)"

text \<open>
  The layers that \<^verbatim>\<open>nn.Sequential\<close> and \<^verbatim>\<open>nn.ModuleList\<close> hold in this file. \<^verbatim>\<open>nn.GELU\<close> is
  the fixed curve \<open>x * \<Phi>(x)\<close>; it is carried as a function on the reals.
\<close>

datatype layer =
  Linear linear_layer
  | Conv2d conv2d_layer
  | ConvTranspose2d convT2d_layer
  | ReLU bool
  | GELU "real \<Rightarrow> real"
  | Identity

fun layer_forward :: "bool \<Rightarrow> layer \<Rightarrow> tensor \<Rightarrow> error + tensor" where
  "layer_forward g (Linear l) x = Linear_forward g l x"
| "layer_forward g (Conv2d c) x = Conv2d_forward g c x"
| "layer_forward g (ConvTranspose2d c) x = ConvTranspose2d_forward g c x"
| "layer_forward g (ReLU inplace) x = Inr (relu g x)"
| "layer_forward g (GELU f) x =
     Inr \<lparr>shape = shape x, val = (\<lambda>i. f (val x i)), requires_grad = (g \<and> requires_grad x)\<rparr>"
| "layer_forward g Identity x = Inr x"

text \<open>\<^verbatim>\<open>nn.Sequential.forward\<close>: the layers in order, stopping at the first that raises.\<close>

fun Sequential_forward :: "bool \<Rightarrow> layer list \<Rightarrow> tensor \<Rightarrow> error + tensor" where
  "Sequential_forward g [] x = Inr x"
| "Sequential_forward g (l # ls) x =
     (case layer_forward g l x of Inl e \<Rightarrow> Inl e | Inr y \<Rightarrow> Sequential_forward g ls y)"

subsection \<open>Batch normalisation\<close>

text \<open>
  \<^verbatim>\<open>nn.BatchNorm2d\<close> owns two learned parameters and three buffers, and is the one layer
  of this file whose call can write to the module. In training mode the call first adds
  one to \<^verbatim>\<open>num_batches_tracked\<close>, then refuses a batch with a single value per channel,
  normalises by the statistics of the batch and moves the running statistics towards
  them (the running variance towards the unbiased one). In evaluation mode it
  normalises by the running statistics and writes nothing. Whether gradients are
  recorded plays no part in this.
\<close>

record batchnorm =
  num_features :: nat
  bn_eps :: real
  momentum :: real
  bn_weight :: param
  bn_bias :: param
  running_mean :: "nat \<Rightarrow> real"
  running_var :: "nat \<Rightarrow> real"
  num_batches_tracked :: nat
  training :: bool

definition mk_BatchNorm2d :: "state_dict \<Rightarrow> string \<Rightarrow> nat \<Rightarrow> batchnorm" where
  "mk_BatchNorm2d sd name n =
     \<lparr>num_features = n, bn_eps = 1 / 100000, momentum = 1 / 10,
      bn_weight = sd (name @ ''.weight''), bn_bias = sd (name @ ''.bias''),
      running_mean = (\<lambda>c. data (sd (name @ ''.running_mean'')) [c]),
      running_var = (\<lambda>c. data (sd (name @ ''.running_var'')) [c]),
      num_batches_tracked = 0, training = True\<rparr>"

definition batch_mean :: "tensor \<Rightarrow> nat \<Rightarrow> nat \<Rightarrow> nat \<Rightarrow> nat \<Rightarrow> real" where
  "batch_mean x n h w c = (\<Sum>b<n. \<Sum>i<h. \<Sum>j<w. val x [b, c, i, j]) / real (n * h * w)"

definition batch_var :: "tensor \<Rightarrow> nat \<Rightarrow> nat \<Rightarrow> nat \<Rightarrow> nat \<Rightarrow> real" where
  "batch_var x n h w c =
     (\<Sum>b<n. \<Sum>i<h. \<Sum>j<w. (val x [b, c, i, j] - batch_mean x n h w c)\<^sup>2) / real (n * h * w)"

definition normalised ::
  "batchnorm \<Rightarrow> bool \<Rightarrow> tensor \<Rightarrow> (nat \<Rightarrow> real) \<Rightarrow> (nat \<Rightarrow> real) \<Rightarrow> tensor" where
  "normalised b g x mean var =
     \<lparr>shape = shape x,
      val = (\<lambda>idx. case idx of
          [k, c, i, j] \<Rightarrow>
            (val x idx - mean c) / sqrt (var c + bn_eps b) * data (bn_weight b) [c]
            + data (bn_bias b) [c]
        | _ \<Rightarrow> 0),
      requires_grad = (g \<and> (requires_grad x \<or> p_requires_grad (bn_weight b)
                              \<or> p_requires_grad (bn_bias b)))\<rparr>"

definition BatchNorm2d_forward ::
  "bool \<Rightarrow> batchnorm \<Rightarrow> tensor \<Rightarrow> (error + tensor) \<times> batchnorm" where
  "BatchNorm2d_forward g b x =
     (case shape x of
        [n, c, h, w] \<Rightarrow>
          if training b then
            (let b1 = b\<lparr>num_batches_tracked := num_batches_tracked b + 1\<rparr> in
             if n * h * w = 1 then (Inl ValueError, b1)
             else if c \<noteq> num_features b then (Inl RuntimeError, b1)
             else
               (Inr (normalised b g x (batch_mean x n h w) (batch_var x n h w)),
                b1\<lparr>running_mean := (\<lambda>k. if k < c
                       then (1 - momentum b) * running_mean b k
                            + momentum b * batch_mean x n h w k
                       else running_mean b k),
                   running_var := (\<lambda>k. if k < c
                       then (1 - momentum b) * running_var b k
                            + momentum b * (batch_var x n h w k * real (n * h * w)
                                            / (real (n * h * w) - 1))
                       else running_var b k)\<rparr>))
          else if c \<noteq> num_features b then (Inl RuntimeError, b)
          else (Inr (normalised b g x (running_mean b) (running_var b)), b)
      | _ \<Rightarrow> (Inl ValueError, b))"

subsection \<open>Bilinear resizing\<close>

text \<open>
  \<^verbatim>\<open>F.interpolate(x, size=..., mode="bilinear", align_corners=...)\<close> or the same with
  \<^verbatim>\<open>scale_factor=...\<close>. A size must name one length per spatial axis; the bilinear mode
  takes 4-D input only; no channel or spatial length may be zero. Each output element
  is a weighted mean of at most four elements of the same batch entry and channel.
\<close>

datatype modifier = Size "nat list" | ScaleFactor nat

definition src_index :: "bool \<Rightarrow> nat \<Rightarrow> nat \<Rightarrow> nat \<Rightarrow> real" where
  "src_index al n_in n_out i =
     (if al then (if 1 < n_out then real i * (real n_in - 1) / (real n_out - 1) else 0)
      else max 0 ((real i + 1 / 2) * real n_in / real n_out - 1 / 2))"

definition bilinear ::
  "bool \<Rightarrow> (nat \<Rightarrow> nat \<Rightarrow> real) \<Rightarrow> nat \<Rightarrow> nat \<Rightarrow> nat \<Rightarrow> nat \<Rightarrow> nat \<Rightarrow> nat \<Rightarrow> real" where
  "bilinear al f h w oh ow i j =
     (let y = src_index al h oh i; x = src_index al w ow j;
          y0 = nat \<lfloor>y\<rfloor>; x0 = nat \<lfloor>x\<rfloor>;
          y1 = (if y0 + 1 < h then y0 + 1 else y0);
          x1 = (if x0 + 1 < w then x0 + 1 else x0);
          ly = y - real y0; lx = x - real x0
      in (1 - ly) * ((1 - lx) * f y0 x0 + lx * f y0 x1)
         + ly * ((1 - lx) * f y1 x0 + lx * f y1 x1))"

definition interpolate :: "bool \<Rightarrow> tensor \<Rightarrow> modifier \<Rightarrow> bool \<Rightarrow> error + tensor" where
  "interpolate g x md al =
     (if (case md of Size s \<Rightarrow> length s + 2 \<noteq> length (shape x) | ScaleFactor f \<Rightarrow> False)
      then Inl ValueError
      else
        (case shape x of
           [n, c, h, w] \<Rightarrow>
             (let oh = (case md of Size s \<Rightarrow> s ! 0 | ScaleFactor f \<Rightarrow> h * f);
                  ow = (case md of Size s \<Rightarrow> s ! 1 | ScaleFactor f \<Rightarrow> w * f)
              in if c = 0 \<or> h = 0 \<or> w = 0 \<or> oh = 0 \<or> ow = 0 then Inl RuntimeError
                 else
                   Inr \<lparr>shape = [n, c, oh, ow],
                        val = (\<lambda>idx. case idx of
                            [b, k, i, j] \<Rightarrow>
                              bilinear al (\<lambda>y z. val x [b, k, y, z]) h w oh ow i j
                          | _ \<Rightarrow> 0),
                        requires_grad = (g \<and> requires_grad x)\<rparr>)
         | _ \<Rightarrow> Inl NotImplementedError))"

section \<open>The fusion decoder\<close>

subsection \<open>\<^verbatim>\<open>ResidualConvUnit\<close>\<close>

text \<open>
  The two normalisation layers exist only when \<^verbatim>\<open>bn\<close> is set. \<^verbatim>\<open>groups\<close> is 1, and
  \<^verbatim>\<open>conv_merge\<close>, which the call would need otherwise, is never created.
\<close>

record ResidualConvUnit =
  rcu_bn :: bool
  rcu_groups :: nat
  rcu_conv1 :: conv2d_layer
  rcu_conv2 :: conv2d_layer
  rcu_bn1 :: "batchnorm option"
  rcu_bn2 :: "batchnorm option"
  rcu_activation :: layer

definition ResidualConvUnit_init ::
  "state_dict \<Rightarrow> string \<Rightarrow> nat \<Rightarrow> layer \<Rightarrow> bool \<Rightarrow> ResidualConvUnit" where
  "ResidualConvUnit_init sd name features activation bn =
     \<lparr>rcu_bn = bn, rcu_groups = 1,
      rcu_conv1 = mk_Conv2d sd (name @ ''.conv1'') features features 3 1 1 True 1,
      rcu_conv2 = mk_Conv2d sd (name @ ''.conv2'') features features 3 1 1 True 1,
      rcu_bn1 = (if bn then Some (mk_BatchNorm2d sd (name @ ''.bn1'') features) else None),
      rcu_bn2 = (if bn then Some (mk_BatchNorm2d sd (name @ ''.bn2'') features) else None),
      rcu_activation = activation\<rparr>"

text \<open>\<^verbatim>\<open>if self.bn == True: out = self.bnK(out)\<close>, returning the layer as the call leaves it.\<close>

definition bn_step ::
  "bool \<Rightarrow> bool \<Rightarrow> batchnorm option \<Rightarrow> tensor \<Rightarrow> (error + tensor) \<times> batchnorm option" where
  "bn_step g use b x =
     (if use then
        (case b of
           None \<Rightarrow> (Inl AttributeError, None)
         | Some n \<Rightarrow> (case BatchNorm2d_forward g n x of (r, n') \<Rightarrow> (r, Some n')))
      else (Inr x, b))"

text \<open>
  The call returns its result and the unit as the call leaves it, also when it raises.
  An in-place activation would overwrite \<open>x\<close> before the final addition reads it.
\<close>

definition ResidualConvUnit_forward ::
  "bool \<Rightarrow> ResidualConvUnit \<Rightarrow> tensor \<Rightarrow> (error + tensor) \<times> ResidualConvUnit" where
  "ResidualConvUnit_forward g u x =
     (case layer_forward g (rcu_activation u) x of
        Inl e \<Rightarrow> (Inl e, u)
      | Inr a1 \<Rightarrow>
     (let x' = (case rcu_activation u of ReLU True \<Rightarrow> a1 | _ \<Rightarrow> x) in
      case Conv2d_forward g (rcu_conv1 u) a1 of
        Inl e \<Rightarrow> (Inl e, u)
      | Inr c1 \<Rightarrow>
     (case bn_step g (rcu_bn u) (rcu_bn1 u) c1 of
        (Inl e, b1) \<Rightarrow> (Inl e, u\<lparr>rcu_bn1 := b1\<rparr>)
      | (Inr n1, b1) \<Rightarrow>
     (case layer_forward g (rcu_activation u) n1 of
        Inl e \<Rightarrow> (Inl e, u\<lparr>rcu_bn1 := b1\<rparr>)
      | Inr a2 \<Rightarrow>
     (case Conv2d_forward g (rcu_conv2 u) a2 of
        Inl e \<Rightarrow> (Inl e, u\<lparr>rcu_bn1 := b1\<rparr>)
      | Inr c2 \<Rightarrow>
     (case bn_step g (rcu_bn u) (rcu_bn2 u) c2 of
        (Inl e, b2) \<Rightarrow> (Inl e, u\<lparr>rcu_bn1 := b1, rcu_bn2 := b2\<rparr>)
      | (Inr n2, b2) \<Rightarrow>
          if 1 < rcu_groups u then (Inl AttributeError, u\<lparr>rcu_bn1 := b1, rcu_bn2 := b2\<rparr>)
          else (add g n2 x', u\<lparr>rcu_bn1 := b1, rcu_bn2 := b2\<rparr>)))))))"

subsection \<open>\<^verbatim>\<open>FeatureFusionBlock\<close>\<close>

record FeatureFusionBlock =
  ffb_deconv :: bool
  ffb_align_corners :: bool
  ffb_groups :: nat
  ffb_expand :: bool
  ffb_out_conv :: conv2d_layer
  resConfUnit1 :: ResidualConvUnit
  resConfUnit2 :: ResidualConvUnit
  ffb_size :: "nat list option"

definition FeatureFusionBlock_init ::
  "state_dict \<Rightarrow> string \<Rightarrow> nat \<Rightarrow> layer \<Rightarrow> bool \<Rightarrow> bool \<Rightarrow> bool \<Rightarrow> bool \<Rightarrow> nat list option
     \<Rightarrow> FeatureFusionBlock" where
  "FeatureFusionBlock_init sd name features activation deconv bn expand align_corners sz =
     (let out_feats = (if expand then features div 2 else features) in
      \<lparr>ffb_deconv = deconv, ffb_align_corners = align_corners, ffb_groups = 1,
       ffb_expand = expand,
       ffb_out_conv = mk_Conv2d sd (name @ ''.out_conv'') features out_feats 1 1 0 True 1,
       resConfUnit1 = ResidualConvUnit_init sd (name @ ''.resConfUnit1'') features activation bn,
       resConfUnit2 = ResidualConvUnit_init sd (name @ ''.resConfUnit2'') features activation bn,
       ffb_size = sz\<rparr>)"

text \<open>
  \<^verbatim>\<open>forward(self, *xs, size=None)\<close>. The skip path runs only for exactly two inputs. The
  resize target is chosen by the three-way test of the source, in its order.
\<close>

definition choose_modifier :: "nat list option \<Rightarrow> nat list option \<Rightarrow> modifier" where
  "choose_modifier sz self_size =
     (if sz = None \<and> self_size = None then ScaleFactor 2
      else if sz = None then Size (the self_size)
      else Size (the sz))"

definition FeatureFusionBlock_forward ::
  "bool \<Rightarrow> FeatureFusionBlock \<Rightarrow> tensor list \<Rightarrow> nat list option
     \<Rightarrow> (error + tensor) \<times> FeatureFusionBlock" where
  "FeatureFusionBlock_forward g f xs sz =
     (case xs of
        [] \<Rightarrow> (Inl IndexError, f)
      | x0 # rest \<Rightarrow>
     (case (if length xs = 2 then
              (case ResidualConvUnit_forward g (resConfUnit1 f) (xs ! 1) of
                 (Inl e, u1) \<Rightarrow> (Inl e, u1)
               | (Inr res, u1) \<Rightarrow> (add g x0 res, u1))
            else (Inr x0, resConfUnit1 f)) of
        (Inl e, u1) \<Rightarrow> (Inl e, f\<lparr>resConfUnit1 := u1\<rparr>)
      | (Inr summed, u1) \<Rightarrow>
     (case ResidualConvUnit_forward g (resConfUnit2 f) summed of
        (Inl e, u2) \<Rightarrow> (Inl e, f\<lparr>resConfUnit1 := u1, resConfUnit2 := u2\<rparr>)
      | (Inr refined, u2) \<Rightarrow>
     (case interpolate g refined (choose_modifier sz (ffb_size f)) (ffb_align_corners f) of
        Inl e \<Rightarrow> (Inl e, f\<lparr>resConfUnit1 := u1, resConfUnit2 := u2\<rparr>)
      | Inr resized \<Rightarrow>
          (Conv2d_forward g (ffb_out_conv f) resized,
           f\<lparr>resConfUnit1 := u1, resConfUnit2 := u2\<rparr>)))))"

text \<open>\<^verbatim>\<open>_make_fusion_block\<close>\<close>

definition make_fusion_block ::
  "state_dict \<Rightarrow> string \<Rightarrow> nat \<Rightarrow> bool \<Rightarrow> nat list option \<Rightarrow> FeatureFusionBlock" where
  "make_fusion_block sd name features use_bn sz =
     FeatureFusionBlock_init sd name features (ReLU False) False use_bn False True sz"

subsection \<open>\<^verbatim>\<open>_make_scratch\<close>\<close>

text \<open>
  The channel-alignment convolutions, one per scale; the fourth exists only for four or
  more input widths. The module names a parameter by the position of its layer, so
  positions are printed in decimal.
\<close>

fun string_of_nat :: "nat \<Rightarrow> string" where
  "string_of_nat n =
     (if n < 10 then [char_of (48 + n)]
      else string_of_nat (n div 10) @ [char_of (48 + n mod 10)])"

declare string_of_nat.simps [simp del]

record scratch_rn =
  layer1_rn :: conv2d_layer
  layer2_rn :: conv2d_layer
  layer3_rn :: conv2d_layer
  layer4_rn :: "conv2d_layer option"

definition make_scratch ::
  "state_dict \<Rightarrow> string \<Rightarrow> nat list \<Rightarrow> nat \<Rightarrow> nat \<Rightarrow> bool \<Rightarrow> error + scratch_rn" where
  "make_scratch sd name in_shape out_shape grp expand =
     (let out_shape1 = out_shape;
          out_shape2 = (if expand then out_shape * 2 else out_shape);
          out_shape3 = (if expand then out_shape * 4 else out_shape);
          out_shape4 = (if expand then out_shape * 8 else out_shape)
      in if length in_shape < 3 then Inl IndexError
         else Inr
           \<lparr>layer1_rn = mk_Conv2d sd (name @ ''.layer1_rn'') (in_shape ! 0) out_shape1 3 1 1 False grp,
            layer2_rn = mk_Conv2d sd (name @ ''.layer2_rn'') (in_shape ! 1) out_shape2 3 1 1 False grp,
            layer3_rn = mk_Conv2d sd (name @ ''.layer3_rn'') (in_shape ! 2) out_shape3 3 1 1 False grp,
            layer4_rn = (if 4 \<le> length in_shape
               then Some (mk_Conv2d sd (name @ ''.layer4_rn'') (in_shape ! 3) out_shape4 3 1 1 False grp)
               else None)\<rparr>)"

subsection \<open>\<^verbatim>\<open>DPTHead\<close>\<close>

text \<open>
  The fields \<^verbatim>\<open>refinenet1\<close> to \<^verbatim>\<open>output_conv2\<close> are attached to \<^verbatim>\<open>self.scratch\<close> by the
  constructor. \<^verbatim>\<open>readout_projects\<close> exists only when the class token is used.
\<close>

record DPTHead =
  use_clstoken :: bool
  projects :: "conv2d_layer list"
  resize_layers :: "layer list"
  readout_projects :: "layer list list option"
  scratch :: scratch_rn
  refinenet1 :: FeatureFusionBlock
  refinenet2 :: FeatureFusionBlock
  refinenet3 :: FeatureFusionBlock
  refinenet4 :: FeatureFusionBlock
  output_conv1 :: conv2d_layer
  output_conv2 :: "layer list"

definition DPTHead_init ::
  "state_dict \<Rightarrow> (real \<Rightarrow> real) \<Rightarrow> string \<Rightarrow> nat \<Rightarrow> nat \<Rightarrow> bool \<Rightarrow> nat list \<Rightarrow> bool
     \<Rightarrow> error + DPTHead" where
  "DPTHead_init sd gelu name in_channels features use_bn out_channels use_cls =
     (if length out_channels < 4 then Inl IndexError
      else
        (case make_scratch sd (name @ ''scratch'') out_channels features 1 False of
           Inl e \<Rightarrow> Inl e
         | Inr sc \<Rightarrow>
             (let head_features_1 = features; head_features_2 = 32 in
              Inr
               \<lparr>use_clstoken = use_cls,
                projects =
                  map (\<lambda>(i, out_channel).
                         mk_Conv2d sd (name @ ''projects.'' @ string_of_nat i)
                           in_channels out_channel 1 1 0 True 1)
                      (enumerate 0 out_channels),
                resize_layers =
                  [ConvTranspose2d (mk_ConvTranspose2d sd (name @ ''resize_layers.0'')
                     (out_channels ! 0) (out_channels ! 0) 4 4 0),
                   ConvTranspose2d (mk_ConvTranspose2d sd (name @ ''resize_layers.1'')
                     (out_channels ! 1) (out_channels ! 1) 2 2 0),
                   Identity,
                   Conv2d (mk_Conv2d sd (name @ ''resize_layers.3'')
                     (out_channels ! 3) (out_channels ! 3) 3 2 1 True 1)],
                readout_projects =
                  (if use_cls then
                     Some (map (\<lambda>i. [Linear (mk_Linear sd
                                          (name @ ''readout_projects.'' @ string_of_nat i @ ''.0'')
                                          (2 * in_channels) in_channels),
                                      GELU gelu])
                               [0..<length out_channels])
                   else None),
                scratch = sc,
                refinenet1 = make_fusion_block sd (name @ ''scratch.refinenet1'') features use_bn None,
                refinenet2 = make_fusion_block sd (name @ ''scratch.refinenet2'') features use_bn None,
                refinenet3 = make_fusion_block sd (name @ ''scratch.refinenet3'') features use_bn None,
                refinenet4 = make_fusion_block sd (name @ ''scratch.refinenet4'') features use_bn None,
                output_conv1 = mk_Conv2d sd (name @ ''scratch.output_conv1'')
                                 head_features_1 (head_features_1 div 2) 3 1 1 True 1,
                output_conv2 =
                  [Conv2d (mk_Conv2d sd (name @ ''scratch.output_conv2.0'')
                             (head_features_1 div 2) head_features_2 3 1 1 True 1),
                   ReLU True,
                   Conv2d (mk_Conv2d sd (name @ ''scratch.output_conv2.2'')
                             head_features_2 1 1 1 0 True 1),
                   ReLU True,
                   Identity]\<rparr>)))"

text \<open>
  A scale entry is the pair a backbone returns: the patch tokens \<open>(B, N, D)\<close> and, when
  it returns one, the class token \<open>(B, D)\<close>.
\<close>

type_synonym scale_entry = "tensor \<times> tensor option"

text \<open>
  The body of the loop over the scale entries, for the entry at position \<open>i\<close>: first the
  tokens (merged with the class token through the readout projection when it is used),
  then the reshape to the patch grid, the projection and the resize.
\<close>

definition DPTHead_readout :: "bool \<Rightarrow> DPTHead \<Rightarrow> nat \<Rightarrow> scale_entry \<Rightarrow> error + tensor" where
  "DPTHead_readout g m i x =
     (if use_clstoken m then
        (case snd x of
           None \<Rightarrow> Inl IndexError
         | Some cls_token \<Rightarrow>
        (case unsqueeze1 g cls_token of
           Inl e \<Rightarrow> Inl e
         | Inr c1 \<Rightarrow>
        (case expand_as g c1 (fst x) of
           Inl e \<Rightarrow> Inl e
         | Inr readout \<Rightarrow>
        (case readout_projects m of
           None \<Rightarrow> Inl AttributeError
         | Some rs \<Rightarrow>
             if length rs \<le> i then Inl IndexError
             else
               (case cat_last g (fst x) readout of
                  Inl e \<Rightarrow> Inl e
                | Inr c \<Rightarrow> Sequential_forward g (rs ! i) c)))))
      else Inr (fst x))"

definition DPTHead_entry ::
  "bool \<Rightarrow> DPTHead \<Rightarrow> nat \<Rightarrow> nat \<Rightarrow> nat \<Rightarrow> scale_entry \<Rightarrow> error + tensor" where
  "DPTHead_entry g m patch_h patch_w i x =
     (case DPTHead_readout g m i x of
        Inl e \<Rightarrow> Inl e
      | Inr t \<Rightarrow>
     (case permute_021 g t of
        Inl e \<Rightarrow> Inl e
      | Inr p \<Rightarrow>
     (case reshape g p [hd (shape t), last (shape t), patch_h, patch_w] of
        Inl e \<Rightarrow> Inl e
      | Inr r \<Rightarrow>
          if length (projects m) \<le> i then Inl IndexError
          else
            (case Conv2d_forward g (projects m ! i) r of
               Inl e \<Rightarrow> Inl e
             | Inr q \<Rightarrow>
                 if length (resize_layers m) \<le> i then Inl IndexError
                 else layer_forward g (resize_layers m ! i) q))))"

fun DPTHead_loop ::
  "bool \<Rightarrow> DPTHead \<Rightarrow> nat \<Rightarrow> nat \<Rightarrow> nat \<Rightarrow> scale_entry list \<Rightarrow> error + tensor list" where
  "DPTHead_loop g m patch_h patch_w i [] = Inr []"
| "DPTHead_loop g m patch_h patch_w i (x # xs) =
     (case DPTHead_entry g m patch_h patch_w i x of
        Inl e \<Rightarrow> Inl e
      | Inr y \<Rightarrow>
          (case DPTHead_loop g m patch_h patch_w (Suc i) xs of
             Inl e \<Rightarrow> Inl e
           | Inr ys \<Rightarrow> Inr (y # ys)))"

text \<open>
  The four fusion stages, from the coarsest scale to the finest. Each stage returns its
  block as the call leaves it; a stage that raises ends the cascade.
\<close>

definition fusion_cascade ::
  "bool \<Rightarrow> DPTHead \<Rightarrow> tensor \<Rightarrow> tensor \<Rightarrow> tensor \<Rightarrow> tensor \<Rightarrow> (error + tensor) \<times> DPTHead" where
  "fusion_cascade g m layer_1_rn layer_2_rn layer_3_rn layer_4_rn =
     (case FeatureFusionBlock_forward g (refinenet4 m) [layer_4_rn]
             (Some (drop 2 (shape layer_3_rn))) of
        (Inl e, r4) \<Rightarrow> (Inl e, m\<lparr>refinenet4 := r4\<rparr>)
      | (Inr path_4, r4) \<Rightarrow>
     (case FeatureFusionBlock_forward g (refinenet3 m) [path_4, layer_3_rn]
             (Some (drop 2 (shape layer_2_rn))) of
        (Inl e, r3) \<Rightarrow> (Inl e, m\<lparr>refinenet4 := r4, refinenet3 := r3\<rparr>)
      | (Inr path_3, r3) \<Rightarrow>
     (case FeatureFusionBlock_forward g (refinenet2 m) [path_3, layer_2_rn]
             (Some (drop 2 (shape layer_1_rn))) of
        (Inl e, r2) \<Rightarrow> (Inl e, m\<lparr>refinenet4 := r4, refinenet3 := r3, refinenet2 := r2\<rparr>)
      | (Inr path_2, r2) \<Rightarrow>
     (case FeatureFusionBlock_forward g (refinenet1 m) [path_2, layer_1_rn] None of
        (r, r1) \<Rightarrow>
          (r, m\<lparr>refinenet4 := r4, refinenet3 := r3, refinenet2 := r2, refinenet1 := r1\<rparr>)))))"

definition DPTHead_forward ::
  "bool \<Rightarrow> DPTHead \<Rightarrow> scale_entry list \<Rightarrow> nat \<Rightarrow> nat \<Rightarrow> (error + tensor) \<times> DPTHead" where
  "DPTHead_forward g m out_features patch_h patch_w =
     (case DPTHead_loop g m patch_h patch_w 0 out_features of
        Inl e \<Rightarrow> (Inl e, m)
      | Inr out \<Rightarrow>
     (case out of
        [layer_1, layer_2, layer_3, layer_4] \<Rightarrow>
          (case Conv2d_forward g (layer1_rn (scratch m)) layer_1 of
             Inl e \<Rightarrow> (Inl e, m)
           | Inr layer_1_rn \<Rightarrow>
          (case Conv2d_forward g (layer2_rn (scratch m)) layer_2 of
             Inl e \<Rightarrow> (Inl e, m)
           | Inr layer_2_rn \<Rightarrow>
          (case Conv2d_forward g (layer3_rn (scratch m)) layer_3 of
             Inl e \<Rightarrow> (Inl e, m)
           | Inr layer_3_rn \<Rightarrow>
          (case layer4_rn (scratch m) of
             None \<Rightarrow> (Inl AttributeError, m)
           | Some c4 \<Rightarrow>
          (case Conv2d_forward g c4 layer_4 of
             Inl e \<Rightarrow> (Inl e, m)
           | Inr layer_4_rn \<Rightarrow>
          (case fusion_cascade g m layer_1_rn layer_2_rn layer_3_rn layer_4_rn of
             (Inl e, m') \<Rightarrow> (Inl e, m')
           | (Inr path_1, m') \<Rightarrow>
          (case Conv2d_forward g (output_conv1 m') path_1 of
             Inl e \<Rightarrow> (Inl e, m')
           | Inr o1 \<Rightarrow>
          (case interpolate g o1 (Size [patch_h * 14, patch_w * 14]) True of
             Inl e \<Rightarrow> (Inl e, m')
           | Inr o2 \<Rightarrow> (Sequential_forward g (output_conv2 m') o2, m')))))))))
      | _ \<Rightarrow> (Inl ValueError, m)))"

subsection \<open>\<^verbatim>\<open>DAv2_Head\<close>: the depth head wrapper\<close>

record DAv2_Head =
  embd_dims :: "string \<rightharpoonup> nat"
  depth_head :: DPTHead

definition DAv2_Head_init ::
  "state_dict \<Rightarrow> (real \<Rightarrow> real) \<Rightarrow> string \<Rightarrow> nat \<Rightarrow> nat list \<Rightarrow> bool \<Rightarrow> bool
     \<Rightarrow> error + DAv2_Head" where
  "DAv2_Head_init sd gelu encoder features out_channels use_bn use_cls =
     (let dims = [''vits'' \<mapsto> 1024, ''vitb'' \<mapsto> 1024, ''vitl'' \<mapsto> 1024, ''vitg'' \<mapsto> 1024] in
      case dims encoder of
        None \<Rightarrow> Inl KeyError
      | Some d \<Rightarrow>
          (case DPTHead_init sd gelu ''depth_head.'' d features use_bn out_channels use_cls of
             Inl e \<Rightarrow> Inl e
           | Inr h \<Rightarrow> Inr \<lparr>embd_dims = dims, depth_head = h\<rparr>))"

definition DAv2_Head_forward ::
  "bool \<Rightarrow> DAv2_Head \<Rightarrow> scale_entry list \<Rightarrow> (error + tensor) \<times> DAv2_Head" where
  "DAv2_Head_forward g m features =
     (let patch_h = 336 div 14; patch_w = 336 div 14 in
      case DPTHead_forward g (depth_head m) features patch_h patch_w of
        (Inl e, d) \<Rightarrow> (Inl e, m\<lparr>depth_head := d\<rparr>)
      | (Inr depth, d) \<Rightarrow> (squeeze1 g (relu g depth), m\<lparr>depth_head := d\<rparr>))"

text \<open>
  \<^verbatim>\<open>.cpu().numpy()\<close>: a tensor attached to a gradient graph cannot be exported; the array
  has no gradient flag.
\<close>

record ndarray =
  nd_shape :: "nat list"
  nd_val :: "nat list \<Rightarrow> real"

definition numpy :: "tensor \<Rightarrow> error + ndarray" where
  "numpy t = (if requires_grad t then Inl RuntimeError
              else Inr \<lparr>nd_shape = shape t, nd_val = val t\<rparr>)"

text \<open>
  \<^verbatim>\<open>infer_feats\<close> is decorated with \<^verbatim>\<open>torch.no_grad()\<close>: whatever the caller's gradient
  mode \<open>g\<close>, the body runs with gradient recording off. The decorator does not change
  the training mode of the module.
\<close>

definition infer_feats ::
  "bool \<Rightarrow> DAv2_Head \<Rightarrow> scale_entry list \<Rightarrow> nat \<times> nat \<Rightarrow> (error + ndarray) \<times> DAv2_Head" where
  "infer_feats g m feats image_size =
     (case image_size of (h, w) \<Rightarrow>
      (case DAv2_Head_forward False m feats of
         (Inl e, m') \<Rightarrow> (Inl e, m')
       | (Inr depth, m') \<Rightarrow>
      (case unsqueeze1 False depth of
         Inl e \<Rightarrow> (Inl e, m')
       | Inr d1 \<Rightarrow>
      (case interpolate False d1 (Size [h, w]) True of
         Inl e \<Rightarrow> (Inl e, m')
       | Inr d2 \<Rightarrow>
      (case index_00 False d2 of
         Inl e \<Rightarrow> (Inl e, m')
       | Inr d3 \<Rightarrow> (numpy d3, m'))))))"

section \<open>Language-feature projection heads\<close>

text \<open>\<^verbatim>\<open>build_mlp\<close> and \<^verbatim>\<open>build_expand_mlp\<close>: linear, ReLU, linear (and once more).\<close>

definition build_mlp :: "state_dict \<Rightarrow> string \<Rightarrow> nat \<Rightarrow> nat \<Rightarrow> layer list" where
  "build_mlp sd name in_hidden_size hidden_size =
     [Linear (mk_Linear sd (name @ ''.0'') in_hidden_size hidden_size),
      ReLU False,
      Linear (mk_Linear sd (name @ ''.2'') hidden_size hidden_size)]"

definition build_expand_mlp :: "state_dict \<Rightarrow> string \<Rightarrow> nat \<Rightarrow> nat \<Rightarrow> nat \<Rightarrow> layer list" where
  "build_expand_mlp sd name in_hidden_size hidden_size out_size =
     [Linear (mk_Linear sd (name @ ''.0'') in_hidden_size hidden_size),
      ReLU False,
      Linear (mk_Linear sd (name @ ''.2'') hidden_size hidden_size),
      ReLU False,
      Linear (mk_Linear sd (name @ ''.4'') hidden_size out_size)]"

text \<open>
  \<^verbatim>\<open>proj_config\<close> is a dictionary, \<^verbatim>\<open>None\<close> by default: subscripting \<^verbatim>\<open>None\<close> is a
  \<^verbatim>\<open>TypeError\<close>, a missing key a \<^verbatim>\<open>KeyError\<close>.
\<close>

type_synonym proj_config = "(string \<rightharpoonup> nat) option"

definition config_get :: "proj_config \<Rightarrow> string \<Rightarrow> error + nat" where
  "config_get c k =
     (case c of
        None \<Rightarrow> Inl TypeError
      | Some m \<Rightarrow> (case m k of None \<Rightarrow> Inl KeyError | Some v \<Rightarrow> Inr v))"

subsection \<open>\<^verbatim>\<open>DepthProbeHead\<close>: the plain MLP variant\<close>

record DepthProbeHead =
  dp_linear_1 :: "layer list"
  dp_linear_2 :: "layer list"
  dp_linear_3 :: "layer list"
  dp_linear_4 :: "layer list"

definition DepthProbeHead_init :: "state_dict \<Rightarrow> nat \<Rightarrow> proj_config \<Rightarrow> error + DepthProbeHead" where
  "DepthProbeHead_init sd llm_hidden_size proj_config =
     (case config_get proj_config ''output_dim'' of
        Inl e \<Rightarrow> Inl e
      | Inr d \<Rightarrow>
          Inr \<lparr>dp_linear_1 = build_mlp sd ''linear_1'' llm_hidden_size d,
               dp_linear_2 = build_mlp sd ''linear_2'' llm_hidden_size d,
               dp_linear_3 = build_mlp sd ''linear_3'' llm_hidden_size d,
               dp_linear_4 = build_mlp sd ''linear_4'' llm_hidden_size d\<rparr>)"

text \<open>
  A feature is paired with \<^verbatim>\<open>None\<close>, the empty slot of the auxiliary token. The list is
  built left to right, so the first perceptron that raises ends the call.
\<close>

type_synonym features = "(tensor \<times> tensor option) list"

definition DepthProbeHead_forward :: "bool \<Rightarrow> DepthProbeHead \<Rightarrow> tensor \<Rightarrow> error + features" where
  "DepthProbeHead_forward g m llm_feats =
     (case Sequential_forward g (dp_linear_1 m) llm_feats of
        Inl e \<Rightarrow> Inl e
      | Inr f1 \<Rightarrow>
     (case Sequential_forward g (dp_linear_1 m) llm_feats of
        Inl e \<Rightarrow> Inl e
      | Inr f2 \<Rightarrow>
     (case Sequential_forward g (dp_linear_2 m) llm_feats of
        Inl e \<Rightarrow> Inl e
      | Inr f3 \<Rightarrow>
     (case Sequential_forward g (dp_linear_3 m) llm_feats of
        Inl e \<Rightarrow> Inl e
      | Inr f4 \<Rightarrow> Inr [(f1, None), (f2, None), (f3, None), (f4, None)]))))"

subsection \<open>\<^verbatim>\<open>DepthHead\<close> and \<^verbatim>\<open>TaskTokenDepthHead\<close>: the resampler variants\<close>

text \<open>
  The classes \<^verbatim>\<open>Resampler\<close> and \<^verbatim>\<open>TaskTokenResampler\<close> are imported from
  \<^verbatim>\<open>ola_vlm.model.multimodal_projector.resampler\<close>. The heads only construct them from
  the configuration and call them, so a class is taken as a parameter: a function from
  its constructor's arguments to the module's forward pass, which may raise.
\<close>

record resampler_args =
  r_dim :: nat
  r_depth :: nat
  r_dim_head :: nat
  r_heads :: nat
  r_num_queries :: nat
  r_embedding_dim :: nat
  r_output_dim :: nat
  r_ff_mult :: nat

type_synonym resampler = "bool \<Rightarrow> tensor \<Rightarrow> error + tensor"

type_synonym task_token_resampler = "bool \<Rightarrow> tensor \<Rightarrow> tensor \<Rightarrow> error + tensor"

text \<open>
  The keyword arguments of the resampler that are read from the dictionary, in the order
  they are written; \<^verbatim>\<open>dim\<close> (here \<open>dim0\<close>) is \<^verbatim>\<open>proj_config["output_dim"]\<close> in one head and the hidden size in
  the other.
\<close>

definition resampler_config :: "proj_config \<Rightarrow> nat \<Rightarrow> nat \<Rightarrow> error + resampler_args" where
  "resampler_config proj_config dim0 llm_hidden_size =
     (case config_get proj_config ''depth'' of
        Inl e \<Rightarrow> Inl e
      | Inr depth \<Rightarrow>
     (case config_get proj_config ''dim_head'' of
        Inl e \<Rightarrow> Inl e
      | Inr dim_head \<Rightarrow>
     (case config_get proj_config ''num_heads'' of
        Inl e \<Rightarrow> Inl e
      | Inr num_heads \<Rightarrow>
     (case config_get proj_config ''num_tokens'' of
        Inl e \<Rightarrow> Inl e
      | Inr num_tokens \<Rightarrow>
     (case config_get proj_config ''output_dim'' of
        Inl e \<Rightarrow> Inl e
      | Inr output_dim \<Rightarrow>
     (case config_get proj_config ''ff_mult'' of
        Inl e \<Rightarrow> Inl e
      | Inr ff_mult \<Rightarrow>
          Inr \<lparr>r_dim = dim0, r_depth = depth, r_dim_head = dim_head,
               r_heads = num_heads, r_num_queries = num_tokens,
               r_embedding_dim = llm_hidden_size, r_output_dim = output_dim,
               r_ff_mult = ff_mult\<rparr>))))))"

text \<open>The three auxiliary perceptrons, created only for \<^verbatim>\<open>use_intermediate_depth\<close>.\<close>

definition intermediate_mlps :: "state_dict \<Rightarrow> bool \<Rightarrow> nat \<Rightarrow> (layer list \<times> layer list \<times> layer list) option" where
  "intermediate_mlps sd use d =
     (if use then Some (build_mlp sd ''linear_1'' d d, build_mlp sd ''linear_2'' d d,
                        build_mlp sd ''linear_3'' d d)
      else None)"

record DepthHead =
  dh_projector :: resampler
  dh_use_intermediate_depth :: bool
  dh_linears :: "(layer list \<times> layer list \<times> layer list) option"

definition DepthHead_init ::
  "state_dict \<Rightarrow> (resampler_args \<Rightarrow> resampler) \<Rightarrow> nat \<Rightarrow> proj_config \<Rightarrow> bool
     \<Rightarrow> error + DepthHead" where
  "DepthHead_init sd Resampler llm_hidden_size proj_config use_intermediate_depth =
     (case config_get proj_config ''output_dim'' of
        Inl e \<Rightarrow> Inl e
      | Inr d \<Rightarrow>
     (case resampler_config proj_config d llm_hidden_size of
        Inl e \<Rightarrow> Inl e
      | Inr args \<Rightarrow>
          Inr \<lparr>dh_projector = Resampler args,
               dh_use_intermediate_depth = use_intermediate_depth,
               dh_linears = intermediate_mlps sd use_intermediate_depth d\<rparr>))"

text \<open>
  The list is appended to in order: the three auxiliary features when they are enabled,
  then the resampled features.
\<close>

definition intermediate_features ::
  "bool \<Rightarrow> bool \<Rightarrow> (layer list \<times> layer list \<times> layer list) option \<Rightarrow> tensor \<Rightarrow> error + features" where
  "intermediate_features g use ls visual_feats =
     (if use then
        (case ls of
           None \<Rightarrow> Inl AttributeError
         | Some (linear_1, linear_2, linear_3) \<Rightarrow>
        (case Sequential_forward g linear_1 visual_feats of
           Inl e \<Rightarrow> Inl e
         | Inr f1 \<Rightarrow>
        (case Sequential_forward g linear_2 visual_feats of
           Inl e \<Rightarrow> Inl e
         | Inr f2 \<Rightarrow>
        (case Sequential_forward g linear_3 visual_feats of
           Inl e \<Rightarrow> Inl e
         | Inr f3 \<Rightarrow> Inr [(f1, None), (f2, None), (f3, None)]))))
      else Inr [])"

definition DepthHead_forward :: "bool \<Rightarrow> DepthHead \<Rightarrow> tensor \<Rightarrow> error + features" where
  "DepthHead_forward g m llm_feats =
     (case dh_projector m g llm_feats of
        Inl e \<Rightarrow> Inl e
      | Inr visual_feats \<Rightarrow>
          (case intermediate_features g (dh_use_intermediate_depth m) (dh_linears m) visual_feats of
             Inl e \<Rightarrow> Inl e
           | Inr fs \<Rightarrow> Inr (fs @ [(visual_feats, None)])))"

record TaskTokenDepthHead =
  tt_projector :: task_token_resampler
  tt_use_intermediate_depth :: bool
  tt_linears :: "(layer list \<times> layer list \<times> layer list) option"

definition TaskTokenDepthHead_init ::
  "state_dict \<Rightarrow> (resampler_args \<Rightarrow> task_token_resampler) \<Rightarrow> proj_config \<Rightarrow> nat \<Rightarrow> bool
     \<Rightarrow> error + TaskTokenDepthHead" where
  "TaskTokenDepthHead_init sd TaskTokenResampler proj_config llm_hidden_size use_intermediate_depth =
     (case resampler_config proj_config llm_hidden_size llm_hidden_size of
        Inl e \<Rightarrow> Inl e
      | Inr args \<Rightarrow>
          Inr \<lparr>tt_projector = TaskTokenResampler args,
               tt_use_intermediate_depth = use_intermediate_depth,
               tt_linears = intermediate_mlps sd use_intermediate_depth (r_output_dim args)\<rparr>)"

definition TaskTokenDepthHead_forward ::
  "bool \<Rightarrow> TaskTokenDepthHead \<Rightarrow> tensor \<Rightarrow> tensor \<Rightarrow> error + features" where
  "TaskTokenDepthHead_forward g m llm_feats latents =
     (case tt_projector m g llm_feats latents of
        Inl e \<Rightarrow> Inl e
      | Inr visual_feats \<Rightarrow>
          (case intermediate_features g (tt_use_intermediate_depth m) (tt_linears m) visual_feats of
             Inl e \<Rightarrow> Inl e
           | Inr fs \<Rightarrow> Inr (fs @ [(visual_feats, None)])))"

section \<open>Concrete inputs and structural predicates\<close>

text \<open>
  A checkpoint of zeros, a tensor of ones, a resampler that returns a tensor of ones of
  the configured size, and a projection configuration, for evaluating the heads.
\<close>

definition zero_sd :: state_dict where
  "zero_sd = (\<lambda>name. \<lparr>data = (\<lambda>i. 0), p_requires_grad = False\<rparr>)"

definition ones :: "nat list \<Rightarrow> tensor" where
  "ones s = \<lparr>shape = s, val = (\<lambda>i. 1), requires_grad = False\<rparr>"

definition fixed_resampler :: "resampler_args \<Rightarrow> resampler" where
  "fixed_resampler args =
     (\<lambda>g x. Inr (ones [hd (shape x), r_num_queries args, r_output_dim args]))"

definition demo_config :: proj_config where
  "demo_config = Some [''output_dim'' \<mapsto> 3, ''depth'' \<mapsto> 1, ''dim_head'' \<mapsto> 2,
                       ''num_heads'' \<mapsto> 2, ''num_tokens'' \<mapsto> 4, ''ff_mult'' \<mapsto> 2]"

text \<open>
  What the shape of a result depends on: the hyperparameters of a convolution, and for a
  normalisation layer its width and whether it would refuse a batch of \<open>k\<close> values per
  channel.
\<close>

definition conv_is :: "conv2d_layer \<Rightarrow> nat \<Rightarrow> nat \<Rightarrow> nat \<Rightarrow> nat \<Rightarrow> nat \<Rightarrow> bool" where
  "conv_is c n_in n_out k s p \<longleftrightarrow>
     c_in c = n_in \<and> c_out c = n_out \<and> kernel_size c = k \<and> stride c = s \<and> padding c = p
     \<and> groups c = 1"

definition bn_pass :: "batchnorm \<Rightarrow> nat \<Rightarrow> nat \<Rightarrow> bool" where
  "bn_pass b F k \<longleftrightarrow> num_features b = F \<and> (training b \<longrightarrow> k \<noteq> 1)"

definition rcu_ready :: "nat \<Rightarrow> nat \<Rightarrow> ResidualConvUnit \<Rightarrow> bool" where
  "rcu_ready F k u \<longleftrightarrow>
     conv_is (rcu_conv1 u) F F 3 1 1 \<and> conv_is (rcu_conv2 u) F F 3 1 1
     \<and> rcu_groups u = 1 \<and> rcu_activation u = ReLU False
     \<and> (rcu_bn u \<longrightarrow>
          (\<exists>b1 b2. rcu_bn1 u = Some b1 \<and> rcu_bn2 u = Some b2
             \<and> bn_pass b1 F k \<and> bn_pass b2 F k))"

definition ffb_ready :: "nat \<Rightarrow> nat \<Rightarrow> FeatureFusionBlock \<Rightarrow> bool" where
  "ffb_ready F k f \<longleftrightarrow>
     rcu_ready F k (resConfUnit1 f) \<and> rcu_ready F k (resConfUnit2 f)
     \<and> conv_is (ffb_out_conv f) F F 1 1 0 \<and> ffb_size f = None"

definition convT_is :: "convT2d_layer \<Rightarrow> nat \<Rightarrow> nat \<Rightarrow> nat \<Rightarrow> bool" where
  "convT_is c n_in n_out k \<longleftrightarrow>
     t_in c = n_in \<and> t_out c = n_out \<and> t_kernel_size c = k \<and> t_stride c = k \<and> t_padding c = 0"

definition readout_is :: "layer list \<Rightarrow> nat \<Rightarrow> bool" where
  "readout_is r n \<longleftrightarrow> (\<exists>l f. r = [Linear l, GELU f] \<and> l_in l = 2 * n \<and> l_out l = n)"

text \<open>
  The layers of a \<^verbatim>\<open>DPTHead\<close> built for embedding width \<open>Cin\<close>, fusion width \<open>F\<close> and
  output channels \<open>ocs\<close>, apart from the fusion blocks.
\<close>

definition dpt_ready :: "nat \<Rightarrow> nat \<Rightarrow> nat list \<Rightarrow> bool \<Rightarrow> DPTHead \<Rightarrow> bool" where
  "dpt_ready Cin F ocs cls m \<longleftrightarrow>
     use_clstoken m = cls
     \<and> length (projects m) = 4
     \<and> (\<forall>i<4. conv_is (projects m ! i) Cin (ocs ! i) 1 1 0)
     \<and> (\<exists>t0 t1 c3. resize_layers m = [ConvTranspose2d t0, ConvTranspose2d t1, Identity, Conv2d c3]
           \<and> convT_is t0 (ocs ! 0) (ocs ! 0) 4 \<and> convT_is t1 (ocs ! 1) (ocs ! 1) 2
           \<and> conv_is c3 (ocs ! 3) (ocs ! 3) 3 2 1)
     \<and> (cls \<longrightarrow> (\<exists>rs. readout_projects m = Some rs \<and> length rs = 4
                       \<and> (\<forall>i<4. readout_is (rs ! i) Cin)))
     \<and> conv_is (layer1_rn (scratch m)) (ocs ! 0) F 3 1 1
     \<and> conv_is (layer2_rn (scratch m)) (ocs ! 1) F 3 1 1
     \<and> conv_is (layer3_rn (scratch m)) (ocs ! 2) F 3 1 1
     \<and> (\<exists>c4. layer4_rn (scratch m) = Some c4 \<and> conv_is c4 (ocs ! 3) F 3 1 1)
     \<and> conv_is (output_conv1 m) F (F div 2) 3 1 1
     \<and> (\<exists>a b. output_conv2 m = [Conv2d a, ReLU True, Conv2d b, ReLU True, Identity]
           \<and> conv_is a (F div 2) 32 3 1 1 \<and> conv_is b 32 1 1 1 0)"

text \<open>The spatial length of scale \<open>i\<close> after its resize layer, for patch-grid length \<open>h\<close>.\<close>

definition resized :: "nat \<Rightarrow> nat \<Rightarrow> nat" where
  "resized i h = (if i = 0 then h * 4 else if i = 1 then h * 2 else if i = 2 then h
                  else (h - 1) div 2 + 1)"

section \<open>Shapes through the layers of the decoder\<close>

lemma Linear_forward_ok:
  assumes "shape x \<noteq> []" and "last (shape x) = l_in l"
  shows "\<exists>y. Linear_forward g l x = Inr y \<and> shape y = butlast (shape x) @ [l_out l]"
  using assms by (simp add: Linear_forward_def)

lemma build_mlp_ok:
  assumes "shape x \<noteq> []" and "last (shape x) = n"
  shows "\<exists>y. Sequential_forward g (build_mlp sd name n d) x = Inr y
              \<and> shape y = butlast (shape x) @ [d]"
proof -
  obtain y1 where y1: "Linear_forward g (mk_Linear sd (name @ ''.0'') n d) x = Inr y1"
      and s1: "shape y1 = butlast (shape x) @ [d]"
    using Linear_forward_ok [of x "mk_Linear sd (name @ ''.0'') n d" g] assms
    by (auto simp: mk_Linear_def)
  have s2: "shape (relu g y1) = butlast (shape x) @ [d]"
    using s1 by (simp add: relu_def)
  obtain y3 where y3: "Linear_forward g (mk_Linear sd (name @ ''.2'') d d) (relu g y1) = Inr y3"
      and s3: "shape y3 = butlast (shape (relu g y1)) @ [d]"
    using Linear_forward_ok [of "relu g y1" "mk_Linear sd (name @ ''.2'') d d" g] s2
    by (auto simp: mk_Linear_def)
  show ?thesis
    using y1 y3 s3 s2 by (simp add: build_mlp_def)
qed

lemma mk_Conv2d_is: "conv_is (mk_Conv2d sd name a b k s p bi 1) a b k s p"
  by (simp add: conv_is_def mk_Conv2d_def)

lemma Conv2d_forward_ok:
  assumes "conv_is c n_in n_out k s p" and "0 < s" and "shape x = [n, n_in, h, w]"
    and "k \<le> h + 2 * p" and "k \<le> w + 2 * p"
  shows "\<exists>y. Conv2d_forward g c x = Inr y
           \<and> shape y = [n, n_out, conv_out h k s p, conv_out w k s p]"
  using assms by (simp add: Conv2d_forward_def conv_is_def)

lemma conv_out_same3: "0 < h \<Longrightarrow> conv_out h 3 1 1 = h"
  by (simp add: conv_out_def)

lemma conv_out_same1: "0 < h \<Longrightarrow> conv_out h 1 1 0 = h"
  by (simp add: conv_out_def)

lemma conv3_ok:
  assumes "conv_is c a b 3 1 1" and "shape x = [n, a, h, w]" and "0 < h" and "0 < w"
  shows "\<exists>y. Conv2d_forward g c x = Inr y \<and> shape y = [n, b, h, w]"
  using Conv2d_forward_ok [OF assms(1) _ assms(2), of g] assms(3,4)
  by (simp add: conv_out_def)

lemma conv1_ok:
  assumes "conv_is c a b 1 1 0" and "shape x = [n, a, h, w]" and "0 < h" and "0 < w"
  shows "\<exists>y. Conv2d_forward g c x = Inr y \<and> shape y = [n, b, h, w]"
  using Conv2d_forward_ok [OF assms(1) _ assms(2), of g] assms(3,4)
  by (simp add: conv_out_def)

lemma broadcast_rev_same: "broadcast_rev xs xs = Some xs"
  by (induction xs) simp_all

lemma add_same_shape:
  assumes "shape x = s" and "shape y = s"
  shows "\<exists>z. add g x y = Inr z \<and> shape z = s"
  using assms by (simp add: add_def broadcast_shapes_def broadcast_rev_same)

lemma BatchNorm2d_forward_ok:
  assumes "bn_pass b F (n * h * w)" and "shape x = [n, F, h, w]"
  shows "\<exists>y b'. BatchNorm2d_forward g b x = (Inr y, b') \<and> shape y = [n, F, h, w]"
  using assms by (auto simp: BatchNorm2d_forward_def bn_pass_def normalised_def Let_def)

lemma interpolate_size_ok:
  assumes "shape x = [n, c, h, w]" and "0 < c" and "0 < h" and "0 < w" and "0 < oh" and "0 < ow"
  shows "\<exists>y. interpolate g x (Size [oh, ow]) al = Inr y \<and> shape y = [n, c, oh, ow]"
  using assms by (simp add: interpolate_def)

lemma interpolate_scale_ok:
  assumes "shape x = [n, c, h, w]" and "0 < c" and "0 < h" and "0 < w" and "0 < k"
  shows "\<exists>y. interpolate g x (ScaleFactor k) al = Inr y \<and> shape y = [n, c, h * k, w * k]"
  using assms by (simp add: interpolate_def Let_def)

lemma bn_step_ok:
  assumes "use \<longrightarrow> (\<exists>n. b = Some n \<and> bn_pass n F (n0 * h * w))" and "shape x = [n0, F, h, w]"
  shows "\<exists>y b'. bn_step g use b x = (Inr y, b') \<and> shape y = [n0, F, h, w]"
proof (cases use)
  case False
  then show ?thesis using assms(2) by (simp add: bn_step_def)
next
  case True
  then obtain n where n: "b = Some n" "bn_pass n F (n0 * h * w)" using assms(1) by auto
  from BatchNorm2d_forward_ok [OF n(2) assms(2), of g]
  obtain y b' where "BatchNorm2d_forward g n x = (Inr y, b')" "shape y = [n0, F, h, w]" by auto
  then show ?thesis using True n(1) by (simp add: bn_step_def)
qed

lemma shape_relu [simp]: "shape (relu g x) = shape x"
  by (simp add: relu_def)

lemma ResidualConvUnit_forward_ok:
  assumes r: "rcu_ready F (n * h * w) u" and x: "shape x = [n, F, h, w]"
    and h: "0 < h" and w: "0 < w"
  shows "\<exists>y u'. ResidualConvUnit_forward g u x = (Inr y, u') \<and> shape y = [n, F, h, w]"
proof -
  have act: "rcu_activation u = ReLU False" and grp: "rcu_groups u = 1"
    and k1: "conv_is (rcu_conv1 u) F F 3 1 1" and k2: "conv_is (rcu_conv2 u) F F 3 1 1"
    using r by (simp_all add: rcu_ready_def)
  have b1: "rcu_bn u \<longrightarrow> (\<exists>b. rcu_bn1 u = Some b \<and> bn_pass b F (n * h * w))"
    and b2: "rcu_bn u \<longrightarrow> (\<exists>b. rcu_bn2 u = Some b \<and> bn_pass b F (n * h * w))"
    using r by (auto simp: rcu_ready_def)
  have sa: "shape (relu g x) = [n, F, h, w]" using x by simp
  obtain c1 where c1: "Conv2d_forward g (rcu_conv1 u) (relu g x) = Inr c1"
    "shape c1 = [n, F, h, w]" using conv3_ok [OF k1 sa h w, of g] by auto
  obtain n1 q1 where n1: "bn_step g (rcu_bn u) (rcu_bn1 u) c1 = (Inr n1, q1)"
    "shape n1 = [n, F, h, w]" using bn_step_ok [OF b1 c1(2), of g] by auto
  have sa2: "shape (relu g n1) = [n, F, h, w]" using n1(2) by simp
  obtain c2 where c2: "Conv2d_forward g (rcu_conv2 u) (relu g n1) = Inr c2"
    "shape c2 = [n, F, h, w]" using conv3_ok [OF k2 sa2 h w, of g] by auto
  obtain n2 q2 where n2: "bn_step g (rcu_bn u) (rcu_bn2 u) c2 = (Inr n2, q2)"
    "shape n2 = [n, F, h, w]" using bn_step_ok [OF b2 c2(2), of g] by auto
  obtain z where z: "add g n2 x = Inr z" "shape z = [n, F, h, w]"
    using add_same_shape [OF n2(2) x, of g] by auto
  show ?thesis
    unfolding ResidualConvUnit_forward_def
    using act grp c1 n1 c2 n2 z by simp
qed

lemma choose_modifier_Some [simp]: "choose_modifier (Some s) z = Size s"
  by (simp add: choose_modifier_def)

lemma choose_modifier_None [simp]: "choose_modifier None None = ScaleFactor 2"
  by (simp add: choose_modifier_def)

lemma FeatureFusionBlock_tail_ok:
  assumes r: "rcu_ready F (n * h * w) (resConfUnit2 f)" and k: "conv_is (ffb_out_conv f) F F 1 1 0"
    and x: "shape x = [n, F, h, w]" and F: "0 < F" and h: "0 < h" and w: "0 < w"
    and md: "md = Size [oh, ow] \<or> (md = ScaleFactor 2 \<and> oh = h * 2 \<and> ow = w * 2)"
    and oh: "0 < oh" and ow: "0 < ow"
  shows "\<exists>refined u2 resized y.
           ResidualConvUnit_forward g (resConfUnit2 f) x = (Inr refined, u2)
           \<and> interpolate g refined md (ffb_align_corners f) = Inr resized
           \<and> Conv2d_forward g (ffb_out_conv f) resized = Inr y
           \<and> shape y = [n, F, oh, ow]"
proof -
  obtain refined u2 where a: "ResidualConvUnit_forward g (resConfUnit2 f) x = (Inr refined, u2)"
    "shape refined = [n, F, h, w]"
    using ResidualConvUnit_forward_ok [OF r x h w, of g] by auto
  obtain resized where b: "interpolate g refined md (ffb_align_corners f) = Inr resized"
    "shape resized = [n, F, oh, ow]"
    using md interpolate_size_ok [OF a(2) F h w oh ow, of g "ffb_align_corners f"]
      interpolate_scale_ok [OF a(2) F h w, of 2 g "ffb_align_corners f"]
    by auto
  obtain y where c: "Conv2d_forward g (ffb_out_conv f) resized = Inr y" "shape y = [n, F, oh, ow]"
    using conv1_ok [OF k b(2) oh ow, of g] by auto
  show ?thesis using a b c by auto
qed

lemma FeatureFusionBlock_single_ok:
  assumes r: "ffb_ready F (n * h * w) f" and x: "shape x = [n, F, h, w]"
    and F: "0 < F" and h: "0 < h" and w: "0 < w"
    and md: "sz = Some [oh, ow] \<or> (sz = None \<and> oh = h * 2 \<and> ow = w * 2)"
    and oh: "0 < oh" and ow: "0 < ow"
  shows "\<exists>y f'. FeatureFusionBlock_forward g f [x] sz = (Inr y, f') \<and> shape y = [n, F, oh, ow]"
proof -
  have r2: "rcu_ready F (n * h * w) (resConfUnit2 f)" and k: "conv_is (ffb_out_conv f) F F 1 1 0"
    and sz: "ffb_size f = None"
    using r by (simp_all add: ffb_ready_def)
  have md': "choose_modifier sz (ffb_size f) = Size [oh, ow]
     \<or> (choose_modifier sz (ffb_size f) = ScaleFactor 2 \<and> oh = h * 2 \<and> ow = w * 2)"
    using md sz by auto
  from FeatureFusionBlock_tail_ok [OF r2 k x F h w md' oh ow, of g]
  show ?thesis
    unfolding FeatureFusionBlock_forward_def by auto
qed

lemma FeatureFusionBlock_pair_ok:
  assumes r: "ffb_ready F (n * h * w) f" and x0: "shape x0 = [n, F, h, w]"
    and x1: "shape x1 = [n, F, h, w]"
    and F: "0 < F" and h: "0 < h" and w: "0 < w"
    and md: "sz = Some [oh, ow] \<or> (sz = None \<and> oh = h * 2 \<and> ow = w * 2)"
    and oh: "0 < oh" and ow: "0 < ow"
  shows "\<exists>y f'. FeatureFusionBlock_forward g f [x0, x1] sz = (Inr y, f')
           \<and> shape y = [n, F, oh, ow]"
proof -
  have r1: "rcu_ready F (n * h * w) (resConfUnit1 f)"
    and r2: "rcu_ready F (n * h * w) (resConfUnit2 f)" and k: "conv_is (ffb_out_conv f) F F 1 1 0"
    and sz: "ffb_size f = None"
    using r by (simp_all add: ffb_ready_def)
  have md': "choose_modifier sz (ffb_size f) = Size [oh, ow]
     \<or> (choose_modifier sz (ffb_size f) = ScaleFactor 2 \<and> oh = h * 2 \<and> ow = w * 2)"
    using md sz by auto
  obtain res u1 where a: "ResidualConvUnit_forward g (resConfUnit1 f) x1 = (Inr res, u1)"
    "shape res = [n, F, h, w]"
    using ResidualConvUnit_forward_ok [OF r1 x1 h w, of g] by auto
  obtain summed where b: "add g x0 res = Inr summed" "shape summed = [n, F, h, w]"
    using add_same_shape [OF x0 a(2), of g] by auto
  from FeatureFusionBlock_tail_ok [OF r2 k b(2) F h w md' oh ow, of g]
  show ?thesis
    unfolding FeatureFusionBlock_forward_def using a b by auto
qed

subsection \<open>The constructed head and its scale entries\<close>

lemma rcu_ready_init:
  "bn \<longrightarrow> k \<noteq> 1 \<Longrightarrow> rcu_ready F k (ResidualConvUnit_init sd name F (ReLU False) bn)"
  by (simp add: rcu_ready_def ResidualConvUnit_init_def conv_is_def mk_Conv2d_def bn_pass_def
      mk_BatchNorm2d_def)

lemma ffb_ready_init:
  "bn \<longrightarrow> k \<noteq> 1 \<Longrightarrow> ffb_ready F k (make_fusion_block sd name F bn None)"
  by (simp add: ffb_ready_def make_fusion_block_def FeatureFusionBlock_init_def Let_def
      rcu_ready_init conv_is_def mk_Conv2d_def)

lemma upt4: "[0..<4] = [0, 1, 2, 3]"
  by (simp add: upt_rec)

lemma less4: "i < 4 \<longleftrightarrow> i = 0 \<or> i = 1 \<or> i = 2 \<or> i = (3::nat)"
  by auto

lemma dpt_ready_init:
  assumes "DPTHead_init sd gelu name Cin F bn [o0, o1, o2, o3] cls = Inr m"
  shows "dpt_ready Cin F [o0, o1, o2, o3] cls m"
    and "refinenet1 m = make_fusion_block sd (name @ ''scratch.refinenet1'') F bn None"
    and "refinenet2 m = make_fusion_block sd (name @ ''scratch.refinenet2'') F bn None"
    and "refinenet3 m = make_fusion_block sd (name @ ''scratch.refinenet3'') F bn None"
    and "refinenet4 m = make_fusion_block sd (name @ ''scratch.refinenet4'') F bn None"
  using assms
  by (auto simp: DPTHead_init_def make_scratch_def Let_def dpt_ready_def conv_is_def
      mk_Conv2d_def convT_is_def mk_ConvTranspose2d_def readout_is_def mk_Linear_def upt4 less4)

lemma permute_021_ok:
  "shape t = [a, b, c] \<Longrightarrow> \<exists>p. permute_021 g t = Inr p \<and> shape p = [a, c, b]"
  by (simp add: permute_021_def)

lemma reshape_ok:
  "numel (shape x) = numel s \<Longrightarrow> \<exists>r. reshape g x s = Inr r \<and> shape r = s"
  by (simp add: reshape_def)

lemma ConvTranspose2d_forward_ok:
  assumes "convT_is c a b k" and "0 < k" and "shape x = [n, a, h, w]" and "0 < h" and "0 < w"
  shows "\<exists>y. ConvTranspose2d_forward g c x = Inr y \<and> shape y = [n, b, h * k, w * k]"
proof -
  have "(h - 1) * k + k = h * k"
    using assms(4) by (cases h) simp_all
  moreover have "(w - 1) * k + k = w * k"
    using assms(5) by (cases w) simp_all
  ultimately show ?thesis
    using assms by (simp add: ConvTranspose2d_forward_def convT_is_def convT_out_def)
qed

lemma conv_stride2_ok:
  assumes "conv_is c a b 3 2 1" and "shape x = [n, a, h, w]" and "0 < h" and "0 < w"
  shows "\<exists>y. Conv2d_forward g c x = Inr y
           \<and> shape y = [n, b, (h - 1) div 2 + 1, (w - 1) div 2 + 1]"
proof -
  have "h + 2 * 1 - 3 = h - 1" "w + 2 * 1 - 3 = w - 1" by simp_all
  then show ?thesis
    using Conv2d_forward_ok [OF assms(1) _ assms(2), of g] assms(3,4)
    by (simp add: conv_out_def)
qed

lemma broadcast_cls: "broadcast_shapes [B, Suc 0, C] [B, N, C] = Some [B, N, C]"
  by (simp add: broadcast_shapes_def)

lemma readout_ok:
  assumes "readout_is r C" and "shape x = [B, N, C]" and "shape cls = [B, C]"
  shows "\<exists>c1 readout c t. unsqueeze1 g cls = Inr c1 \<and> expand_as g c1 x = Inr readout
           \<and> cat_last g x readout = Inr c \<and> Sequential_forward g r c = Inr t
           \<and> shape t = [B, N, C]"
proof -
  obtain l f where r: "r = [Linear l, GELU f]" "l_in l = 2 * C" "l_out l = C"
    using assms(1) by (auto simp: readout_is_def)
  obtain c1 where c1: "unsqueeze1 g cls = Inr c1" "shape c1 = [B, Suc 0, C]"
    using assms(3) by (simp add: unsqueeze1_def)
  obtain ro where ro: "expand_as g c1 x = Inr ro" "shape ro = [B, N, C]"
    using c1(2) assms(2) by (simp add: expand_as_def broadcast_cls)
  obtain c where c: "cat_last g x ro = Inr c" "shape c = [B, N, 2 * C]"
    using ro(2) assms(2) by (simp add: cat_last_def)
  have "shape c \<noteq> []" "last (shape c) = l_in l" using c(2) r(2) by simp_all
  from Linear_forward_ok [OF this, of g]
  obtain y where y: "Linear_forward g l c = Inr y" "shape y = [B, N, C]"
    using c(2) r(3) by auto
  show ?thesis using c1 ro c y r(1) by simp
qed

lemma DPTHead_readout_ok:
  assumes m: "dpt_ready Cin F ocs cls m" and i: "i < 4"
    and x: "shape (fst e) = [B, N, Cin]"
    and c: "cls \<longrightarrow> (\<exists>t. snd e = Some t \<and> shape t = [B, Cin])"
  shows "\<exists>t. DPTHead_readout g m i e = Inr t \<and> shape t = [B, N, Cin]"
proof (cases cls)
  case False
  then have "\<not> use_clstoken m" using m unfolding dpt_ready_def by blast
  then show ?thesis using x by (simp add: DPTHead_readout_def)
next
  case True
  then have u: "use_clstoken m" using m unfolding dpt_ready_def by blast
  obtain t where t: "snd e = Some t" "shape t = [B, Cin]" using c True by auto
  have "\<exists>rs. readout_projects m = Some rs \<and> length rs = 4 \<and> (\<forall>i<4. readout_is (rs ! i) Cin)"
    using m True unfolding dpt_ready_def by blast
  then obtain rs where rs: "readout_projects m = Some rs" "length rs = 4"
    "\<forall>i<4. readout_is (rs ! i) Cin" by blast
  have "readout_is (rs ! i) Cin" using rs(3) i by blast
  from readout_ok [OF this x t(2), of g]
  obtain c1 ro c y where "unsqueeze1 g t = Inr c1" "expand_as g c1 (fst e) = Inr ro"
    "cat_last g (fst e) ro = Inr c" "Sequential_forward g (rs ! i) c = Inr y"
    "shape y = [B, N, Cin]" by blast
  then show ?thesis using u t(1) rs(1,2) i by (simp add: DPTHead_readout_def)
qed

lemma resize_layer_ok:
  assumes m: "dpt_ready Cin F ocs cls m" and i: "i < 4"
    and q: "shape q = [B, ocs ! i, ph, pw]" and ph: "0 < ph" and pw: "0 < pw"
  shows "length (resize_layers m) = 4
       \<and> (\<exists>y. layer_forward g (resize_layers m ! i) q = Inr y
              \<and> shape y = [B, ocs ! i, resized i ph, resized i pw])"
proof -
  have "\<exists>t0 t1 c3. resize_layers m = [ConvTranspose2d t0, ConvTranspose2d t1, Identity, Conv2d c3]
           \<and> convT_is t0 (ocs ! 0) (ocs ! 0) 4 \<and> convT_is t1 (ocs ! 1) (ocs ! 1) 2
           \<and> conv_is c3 (ocs ! 3) (ocs ! 3) 3 2 1"
    using m unfolding dpt_ready_def by blast
  then obtain t0 t1 c3 where rl: "resize_layers m = [ConvTranspose2d t0, ConvTranspose2d t1, Identity, Conv2d c3]"
    "convT_is t0 (ocs ! 0) (ocs ! 0) 4" "convT_is t1 (ocs ! 1) (ocs ! 1) 2"
    "conv_is c3 (ocs ! 3) (ocs ! 3) 3 2 1" by blast
  consider "i = 0" | "i = 1" | "i = 2" | "i = 3" using i by linarith
  then show ?thesis
  proof cases
    case 1
    have sq: "shape q = [B, ocs ! 0, ph, pw]" using q 1 by simp
    have "0 < (4::nat)" by simp
    from ConvTranspose2d_forward_ok [OF rl(2) this sq ph pw, of g]
    show ?thesis using 1 rl(1) by (simp add: resized_def)
  next
    case 2
    have sq: "shape q = [B, ocs ! 1, ph, pw]" using q 2 by simp
    have "0 < (2::nat)" by simp
    from ConvTranspose2d_forward_ok [OF rl(3) this sq ph pw, of g]
    show ?thesis using 2 rl(1) by (simp add: resized_def)
  next
    case 3
    then show ?thesis using q rl(1) by (simp add: resized_def)
  next
    case 4
    have sq: "shape q = [B, ocs ! 3, ph, pw]" using q 4 by simp
    from conv_stride2_ok [OF rl(4) sq ph pw, of g]
    show ?thesis using 4 rl(1) by (simp add: resized_def)
  qed
qed

lemma DPTHead_entry_ok:
  assumes m: "dpt_ready Cin F ocs cls m" and i: "i < 4"
    and x: "shape (fst e) = [B, ph * pw, Cin]"
    and c: "cls \<longrightarrow> (\<exists>t. snd e = Some t \<and> shape t = [B, Cin])"
    and ph: "0 < ph" and pw: "0 < pw"
  shows "\<exists>y. DPTHead_entry g m ph pw i e = Inr y
           \<and> shape y = [B, ocs ! i, resized i ph, resized i pw]"
proof -
  obtain t where t: "DPTHead_readout g m i e = Inr t" and st: "shape t = [B, ph * pw, Cin]"
    using DPTHead_readout_ok [OF m i x c, of g] by blast
  obtain p where p: "permute_021 g t = Inr p" "shape p = [B, Cin, ph * pw]"
    using permute_021_ok [OF st, of g] by auto
  have "numel (shape p) = numel [hd (shape t), last (shape t), ph, pw]"
    using p(2) st by (simp add: numel_def)
  from reshape_ok [OF this, of g]
  obtain r where r: "reshape g p [hd (shape t), last (shape t), ph, pw] = Inr r"
    "shape r = [B, Cin, ph, pw]" using st by auto
  have len: "length (projects m) = 4" and k0: "\<forall>i<4. conv_is (projects m ! i) Cin (ocs ! i) 1 1 0"
    using m unfolding dpt_ready_def by blast+
  have k: "conv_is (projects m ! i) Cin (ocs ! i) 1 1 0" using k0 i by blast
  obtain q where q: "Conv2d_forward g (projects m ! i) r = Inr q"
    "shape q = [B, ocs ! i, ph, pw]"
    using conv1_ok [OF k r(2) ph pw, of g] by auto
  from resize_layer_ok [OF m i q(2) ph pw, of g]
  obtain y where y: "length (resize_layers m) = 4"
    "layer_forward g (resize_layers m ! i) q = Inr y"
    "shape y = [B, ocs ! i, resized i ph, resized i pw]" by blast
  show ?thesis
    unfolding DPTHead_entry_def using t p r q len i y by simp
qed

section \<open>Properties of the projection heads\<close>

lemma DepthProbeHead_forward_ok:
  assumes "DepthProbeHead_init sd h pc = Inr m" and "config_get pc ''output_dim'' = Inr d"
    and "shape x = [b, h]"
  shows "\<exists>f1 f2 f3 f4. DepthProbeHead_forward g m x = Inr [(f1, None), (f2, None), (f3, None), (f4, None)]
           \<and> shape f1 = [b, d] \<and> shape f2 = [b, d] \<and> shape f3 = [b, d] \<and> shape f4 = [b, d]"
proof -
  have m: "m = \<lparr>dp_linear_1 = build_mlp sd ''linear_1'' h d,
               dp_linear_2 = build_mlp sd ''linear_2'' h d,
               dp_linear_3 = build_mlp sd ''linear_3'' h d,
               dp_linear_4 = build_mlp sd ''linear_4'' h d\<rparr>"
    using assms(1,2) by (simp add: DepthProbeHead_init_def)
  have x: "shape x \<noteq> []" "last (shape x) = h" "butlast (shape x) @ [d] = [b, d]"
    using assms(3) by simp_all
  obtain f1 where f1: "Sequential_forward g (build_mlp sd ''linear_1'' h d) x = Inr f1"
    "shape f1 = [b, d]" using build_mlp_ok [OF x(1,2), of g sd "''linear_1''" d] x(3) by auto
  obtain f3 where f3: "Sequential_forward g (build_mlp sd ''linear_2'' h d) x = Inr f3"
    "shape f3 = [b, d]" using build_mlp_ok [OF x(1,2), of g sd "''linear_2''" d] x(3) by auto
  obtain f4 where f4: "Sequential_forward g (build_mlp sd ''linear_3'' h d) x = Inr f4"
    "shape f4 = [b, d]" using build_mlp_ok [OF x(1,2), of g sd "''linear_3''" d] x(3) by auto
  show ?thesis
    unfolding DepthProbeHead_forward_def m using f1 f3 f4 by simp
qed

text \<open>
  C8. Constructed with \<^verbatim>\<open>proj_config["output_dim"] = D\<close> and called on an input of shape
  \<open>(B, llm_hidden_size)\<close>, the plain MLP variant is constructed and returns a list of
  exactly 4 pairs, each a feature tensor of shape \<open>(B, D)\<close> paired with \<^verbatim>\<open>None\<close>.
\<close>

theorem DepthProbeHead_four_entries:
  assumes "proj_config = Some pc" and "pc ''output_dim'' = Some D"
    and "shape llm_feats = [B, llm_hidden_size]"
  shows "\<exists>m fs. DepthProbeHead_init sd llm_hidden_size proj_config = Inr m
           \<and> DepthProbeHead_forward g m llm_feats = Inr fs
           \<and> length fs = 4
           \<and> list_all (\<lambda>p. shape (fst p) = [B, D] \<and> snd p = None) fs"
proof -
  have c: "config_get proj_config ''output_dim'' = Inr D"
    using assms(1,2) by (simp add: config_get_def)
  then obtain m where m: "DepthProbeHead_init sd llm_hidden_size proj_config = Inr m"
    by (simp add: DepthProbeHead_init_def)
  from DepthProbeHead_forward_ok [OF m c assms(3), of g] m show ?thesis
    by auto
qed

theorem DepthProbeHead_four_entries_witness:
  "\<exists>m fs. DepthProbeHead_init zero_sd 5 (Some [''output_dim'' \<mapsto> 3]) = Inr m
      \<and> DepthProbeHead_forward True m (ones [2, 5]) = Inr fs
      \<and> length fs = 4
      \<and> list_all (\<lambda>p. shape (fst p) = [2, 3] \<and> snd p = None) fs"
  using DepthProbeHead_four_entries [of "Some [''output_dim'' \<mapsto> 3]" "[''output_dim'' \<mapsto> 3]" 3
      "ones [2, 5]" 2 5 zero_sd True]
  by (simp add: ones_def)

text \<open>
  C3. Whenever the plain MLP variant returns, the features at positions 0 and 1 of the
  list are equal, both being the output of the first perceptron \<^verbatim>\<open>linear_1\<close> on the
  input; position 2 is the output of \<^verbatim>\<open>linear_2\<close>, and the fourth entry (position 3) is
  the output of the third perceptron \<^verbatim>\<open>linear_3\<close>.
\<close>

theorem DepthProbeHead_duplicate_first:
  assumes "DepthProbeHead_forward g m llm_feats = Inr fs"
  shows "fst (fs ! 0) = fst (fs ! 1)
       \<and> Sequential_forward g (dp_linear_1 m) llm_feats = Inr (fst (fs ! 0))
       \<and> Sequential_forward g (dp_linear_1 m) llm_feats = Inr (fst (fs ! 1))
       \<and> Sequential_forward g (dp_linear_2 m) llm_feats = Inr (fst (fs ! 2))
       \<and> Sequential_forward g (dp_linear_3 m) llm_feats = Inr (fst (fs ! 3))"
  using assms by (auto simp: DepthProbeHead_forward_def split: sum.splits)

theorem DepthProbeHead_duplicate_first_witness:
  "\<exists>m fs. DepthProbeHead_init zero_sd 5 (Some [''output_dim'' \<mapsto> 3]) = Inr m
      \<and> DepthProbeHead_forward True m (ones [2, 5]) = Inr fs
      \<and> fst (fs ! 0) = fst (fs ! 1)
      \<and> Sequential_forward True (dp_linear_3 m) (ones [2, 5]) = Inr (fst (fs ! 3))"
proof -
  have c: "config_get (Some [''output_dim'' \<mapsto> 3]) ''output_dim'' = Inr 3"
    by (simp add: config_get_def)
  then obtain m where m: "DepthProbeHead_init zero_sd 5 (Some [''output_dim'' \<mapsto> 3]) = Inr m"
    by (simp add: DepthProbeHead_init_def)
  have "shape (ones [2, 5]) = [2, 5]" by (simp add: ones_def)
  from DepthProbeHead_forward_ok [OF m c this, of True]
  obtain fs where fs: "DepthProbeHead_forward True m (ones [2, 5]) = Inr fs" by auto
  from DepthProbeHead_duplicate_first [OF fs] m fs show ?thesis by auto
qed

lemma DepthHead_init_fields:
  assumes "DepthHead_init sd Resampler h pc use = Inr m" and "config_get pc ''output_dim'' = Inr D"
  shows "dh_use_intermediate_depth m = use" and "dh_linears m = intermediate_mlps sd use D"
  using assms by (auto simp: DepthHead_init_def split: sum.splits)

text \<open>
  C7. Let the resampler-based variant be constructed over a configuration with
  \<^verbatim>\<open>output_dim = D\<close>, and let its resampler return \<open>visual_feats\<close> on the input (with
  last axis \<open>D\<close> when the auxiliary perceptrons are enabled). With
  \<^verbatim>\<open>use_intermediate_depth\<close> enabled the call returns exactly 4 entries: the outputs of
  the three auxiliary perceptrons on \<open>visual_feats\<close>, in order, then \<open>visual_feats\<close>
  itself, each paired with \<^verbatim>\<open>None\<close>. With it disabled the call returns exactly 1 entry,
  \<open>visual_feats\<close> paired with \<^verbatim>\<open>None\<close>.
\<close>

theorem DepthHead_entries:
  assumes "DepthHead_init sd Resampler llm_hidden_size proj_config use_intermediate_depth = Inr m"
    and "config_get proj_config ''output_dim'' = Inr D"
    and "dh_projector m g llm_feats = Inr visual_feats"
    and "use_intermediate_depth \<longrightarrow> shape visual_feats \<noteq> [] \<and> last (shape visual_feats) = D"
  shows "if use_intermediate_depth
         then \<exists>f1 f2 f3.
                DepthHead_forward g m llm_feats
                  = Inr [(f1, None), (f2, None), (f3, None), (visual_feats, None)]
                \<and> Sequential_forward g (build_mlp sd ''linear_1'' D D) visual_feats = Inr f1
                \<and> Sequential_forward g (build_mlp sd ''linear_2'' D D) visual_feats = Inr f2
                \<and> Sequential_forward g (build_mlp sd ''linear_3'' D D) visual_feats = Inr f3
         else DepthHead_forward g m llm_feats = Inr [(visual_feats, None)]"
proof (cases use_intermediate_depth)
  case False
  then show ?thesis
    using DepthHead_init_fields [OF assms(1,2)] assms(3)
    by (simp add: DepthHead_forward_def intermediate_features_def)
next
  case True
  then have v: "shape visual_feats \<noteq> []" "last (shape visual_feats) = D"
    using assms(4) by auto
  obtain f1 where f1: "Sequential_forward g (build_mlp sd ''linear_1'' D D) visual_feats = Inr f1"
    using build_mlp_ok [OF v, of g sd "''linear_1''" D] by auto
  obtain f2 where f2: "Sequential_forward g (build_mlp sd ''linear_2'' D D) visual_feats = Inr f2"
    using build_mlp_ok [OF v, of g sd "''linear_2''" D] by auto
  obtain f3 where f3: "Sequential_forward g (build_mlp sd ''linear_3'' D D) visual_feats = Inr f3"
    using build_mlp_ok [OF v, of g sd "''linear_3''" D] by auto
  show ?thesis
    using True DepthHead_init_fields [OF assms(1,2)] assms(3) f1 f2 f3
    by (simp add: DepthHead_forward_def intermediate_features_def intermediate_mlps_def)
qed

lemma demo_get: "config_get demo_config ''output_dim'' = Inr 3"
  by (simp add: config_get_def demo_config_def)

lemma demo_DepthHead_init:
  "\<exists>m. DepthHead_init zero_sd fixed_resampler 5 demo_config u = Inr m
       \<and> dh_projector m = fixed_resampler
            \<lparr>r_dim = 3, r_depth = 1, r_dim_head = 2, r_heads = 2, r_num_queries = 4,
             r_embedding_dim = 5, r_output_dim = 3, r_ff_mult = 2\<rparr>"
  by (simp add: DepthHead_init_def resampler_config_def config_get_def demo_config_def)

theorem DepthHead_entries_witness:
  "\<exists>m f1 f2 f3. DepthHead_init zero_sd fixed_resampler 5 demo_config True = Inr m
      \<and> DepthHead_forward True m (ones [2, 7, 5])
          = Inr [(f1, None), (f2, None), (f3, None), (ones [2, 4, 3], None)]"
proof -
  obtain m where m: "DepthHead_init zero_sd fixed_resampler 5 demo_config True = Inr m"
    and p: "dh_projector m = fixed_resampler
            \<lparr>r_dim = 3, r_depth = 1, r_dim_head = 2, r_heads = 2, r_num_queries = 4,
             r_embedding_dim = 5, r_output_dim = 3, r_ff_mult = 2\<rparr>"
    using demo_DepthHead_init [of True] by auto
  have v: "dh_projector m True (ones [2, 7, 5]) = Inr (ones [2, 4, 3])"
    by (simp add: p fixed_resampler_def ones_def)
  have s: "True \<longrightarrow> shape (ones [2, 4, 3]) \<noteq> [] \<and> last (shape (ones [2, 4, 3])) = 3"
    by (simp add: ones_def)
  from DepthHead_entries [OF m demo_get v s] m show ?thesis by auto
qed

end
